theory Spec2Isabelle
  imports Main
begin

section \<open>Errors, events and the outside world\<close>

text \<open>
  The program \<^verbatim>\<open>sshcode.go\<close> is one sequential function, \<^verbatim>\<open>sshCode\<close>, and its helpers.
  Almost every line talks to the outside world: it runs commands, binds sockets, draws
  random numbers, reads the file system, issues HTTP requests. The embedding makes each
  such call explicit. A call appends one \<open>event\<close> to a trace, and its result is read
  from a \<open>world\<close>: a record of functions that say what the outside answers. Every
  answer may depend on the number of events that happened before (the first argument of
  each field), so the same request may be answered differently at different moments.

  A Go \<^verbatim>\<open>error\<close> value is either produced outside this file (\<open>External\<close>, carrying its
  message) or built by \<^verbatim>\<open>xerrors.Errorf\<close> (\<open>Errorf\<close>: the format string, the rendered
  arguments other than the wrapped error, and the error wrapped by \<^verbatim>\<open>%w\<close>, if any).
\<close>

datatype error = External string | Errorf string "string list" "error option"

datatype asset = Settings | Extensions

datatype signal = TunnelEnded | UserInterrupted

text \<open>The three outcomes of \<^verbatim>\<open>os.Stat\<close> the program tells apart: no error, an error for
  which \<^verbatim>\<open>os.IsNotExist\<close> holds, any other error.\<close>

datatype stat_result = Stat_Ok | Stat_NotExist string | Stat_Error string

text \<open>
  One constructor per kind of call. Each carries the request and the answer.
  \<open>Sync_Return\<close> is the only event that is not a call to the outside: it records that
  \<^verbatim>\<open>syncUserSettings\<close> (\<open>Settings\<close>) or \<^verbatim>\<open>syncExtensions\<close> (\<open>Extensions\<close>) returned, with
  its \<^verbatim>\<open>back\<close> argument and its result, so that the order of the calls of a session can
  be read off the trace. \<open>Flog_Info\<close> records the format string of the message only.
\<close>

datatype event =
    Exec_CombinedOutput string "string list" string "string option"
  | Exec_Run string "string list" "string option" "string option"
  | Exec_Start string "string list" "string option"
  | Rand_Intn nat nat
  | Net_Listen string string "string option"
  | Listener_Close
  | Config_Dir "string + string"
  | Extensions_Dir "string + string"
  | Os_Stat string stat_result
  | Os_MkdirAll string nat "string option"
  | Http_Get string nat "string + nat"
  | Body_Close
  | Look_Path string bool
  | Browser_OpenURL string "string option"
  | Flog_Info string
  | Flog_Error string string
  | Select "signal option"
  | Sync_Return asset bool "error option"

type_synonym trace = "event list"

text \<open>
  The answers of the outside. \<open>w_configDir\<close> and \<open>w_extensionsDir\<close> stand for the
  functions \<^verbatim>\<open>configDir()\<close> and \<^verbatim>\<open>extensionsDir()\<close>, which this file calls and does not
  define; \<open>w_parseIP s\<close> says whether \<^verbatim>\<open>net.ParseIP(s)\<close> is non-nil; \<open>w_rand\<close> is the
  shared random source; \<open>w_get\<close> answers an HTTP GET with the time the attempt takes
  (in nanoseconds) and either a transport error or the status code of the response;
  \<open>w_select\<close> is the event that ends the \<^verbatim>\<open>select\<close> of \<^verbatim>\<open>sshCode\<close>, or \<open>None\<close> when
  neither the tunnel exits nor an interrupt arrives.
\<close>

record world =
  w_combinedOutput :: "nat \<Rightarrow> string \<Rightarrow> string list \<Rightarrow> string \<times> string option"
  w_run :: "nat \<Rightarrow> string \<Rightarrow> string list \<Rightarrow> string option \<Rightarrow> string option"
  w_start :: "nat \<Rightarrow> string \<Rightarrow> string list \<Rightarrow> string option"
  w_rand :: "nat \<Rightarrow> nat"
  w_listen :: "nat \<Rightarrow> string \<Rightarrow> string \<Rightarrow> string option"
  w_configDir :: "nat \<Rightarrow> string + string"
  w_extensionsDir :: "nat \<Rightarrow> string + string"
  w_stat :: "nat \<Rightarrow> string \<Rightarrow> stat_result"
  w_mkdirAll :: "nat \<Rightarrow> string \<Rightarrow> nat \<Rightarrow> string option"
  w_get :: "nat \<Rightarrow> string \<Rightarrow> nat \<times> (string + nat)"
  w_lookPath :: "nat \<Rightarrow> string \<Rightarrow> bool"
  w_openURL :: "nat \<Rightarrow> string \<Rightarrow> string option"
  w_select :: "nat \<Rightarrow> signal option"
  w_parseIP :: "string \<Rightarrow> bool"

section \<open>The Go library functions the program uses\<close>

text \<open>
  Strings are byte lists. The functions below follow the Go standard library on ASCII
  input; \<open>strings_TrimSpace\<close> removes the six ASCII white-space characters only (the
  library also removes multi-byte Unicode white space, which is not modelled).
  \<open>strings_Split\<close> is \<^verbatim>\<open>strings.Split\<close> for a separator of one character, the only
  kind the program uses: it cuts at every occurrence and never returns the empty list.
\<close>

fun strings_Split :: "string \<Rightarrow> char \<Rightarrow> string list" where
  "strings_Split [] sep = [[]]"
| "strings_Split (c # cs) sep =
     (if c = sep then [] # strings_Split cs sep
      else (case strings_Split cs sep of
              [] \<Rightarrow> [[c]]
            | tok # toks \<Rightarrow> (c # tok) # toks))"

fun strings_Join :: "string list \<Rightarrow> string \<Rightarrow> string" where
  "strings_Join [] sep = []"
| "strings_Join [x] sep = x"
| "strings_Join (x # y # ys) sep = x @ sep @ strings_Join (y # ys) sep"

definition asciiSpace :: "char \<Rightarrow> bool" where
  "asciiSpace c \<longleftrightarrow> c \<in> set [CHR 0x09, CHR 0x0A, CHR 0x0B, CHR 0x0C, CHR 0x0D, CHR '' '']"

definition strings_TrimSpace :: "string \<Rightarrow> string" where
  "strings_TrimSpace s = rev (dropWhile asciiSpace (rev (dropWhile asciiSpace s)))"

definition strings_HasPrefix :: "string \<Rightarrow> string \<Rightarrow> bool" where
  "strings_HasPrefix s pre \<longleftrightarrow> take (length pre) s = pre"

definition strings_TrimPrefix :: "string \<Rightarrow> string \<Rightarrow> string" where
  "strings_TrimPrefix s pre = (if strings_HasPrefix s pre then drop (length pre) s else s)"

text \<open>\<^verbatim>\<open>strconv.Itoa\<close> and the verb \<^verbatim>\<open>%d\<close>, on the non-negative integers the program prints.\<close>

fun strconv_Itoa :: "nat \<Rightarrow> string" where
  "strconv_Itoa n =
     (if n < 10 then [''0123456789'' ! n]
      else strconv_Itoa (n div 10) @ [''0123456789'' ! (n mod 10)])"

declare strconv_Itoa.simps [simp del]

text \<open>Index of the first and of the last occurrence of a byte (\<open>None\<close> for Go's \<open>-1\<close>).\<close>

fun indexByte :: "string \<Rightarrow> char \<Rightarrow> nat option" where
  "indexByte [] c = None"
| "indexByte (x # xs) c = (if x = c then Some 0 else map_option Suc (indexByte xs c))"

definition lastIndexByte :: "string \<Rightarrow> char \<Rightarrow> nat option" where
  "lastIndexByte s c =
     (case indexByte (rev s) c of None \<Rightarrow> None | Some k \<Rightarrow> Some (length s - 1 - k))"

text \<open>
  \<^verbatim>\<open>net.SplitHostPort\<close>, after the standard library: the port starts after the last
  colon; a host in square brackets may contain colons; any other bracket is an error.
  The error is the message of the library's \<^verbatim>\<open>AddrError\<close>.
\<close>

definition addrErr :: "string \<Rightarrow> string \<Rightarrow> string + string \<times> string" where
  "addrErr addr why = Inl (''address '' @ addr @ '': '' @ why)"

definition net_SplitHostPort :: "string \<Rightarrow> string + string \<times> string" where
  "net_SplitHostPort hostport =
     (let missingPort = ''missing port in address'';
          tooManyColons = ''too many colons in address'';
          finish = (\<lambda>host j k i.
            if indexByte (drop j hostport) CHR ''['' \<noteq> None
            then addrErr hostport ''unexpected '[' in address''
            else if indexByte (drop k hostport) CHR '']'' \<noteq> None
            then addrErr hostport ''unexpected ']' in address''
            else Inr (host, drop (i + 1) hostport))
      in case lastIndexByte hostport CHR '':'' of
           None \<Rightarrow> addrErr hostport missingPort
         | Some i \<Rightarrow>
             if hostport ! 0 = CHR ''[''
             then (case indexByte hostport CHR '']'' of
                     None \<Rightarrow> addrErr hostport ''missing ']' in address''
                   | Some e \<Rightarrow>
                       if e + 1 = length hostport then addrErr hostport missingPort
                       else if e + 1 = i then finish (take (e - 1) (drop 1 hostport)) 1 (e + 1) i
                       else if hostport ! (e + 1) = CHR '':'' then addrErr hostport tooManyColons
                       else addrErr hostport missingPort)
             else (let host = take i hostport
                   in if indexByte host CHR '':'' \<noteq> None then addrErr hostport tooManyColons
                      else finish host 0 0 i))"

definition net_JoinHostPort :: "string \<Rightarrow> string \<Rightarrow> string" where
  "net_JoinHostPort host port =
     (if indexByte host CHR '':'' \<noteq> None then ''['' @ host @ '']:'' @ port
      else host @ '':'' @ port)"

text \<open>
  \<^verbatim>\<open>filepath.Dir\<close> on a slash-separated path: everything up to the last slash, cleaned.
  Of \<^verbatim>\<open>filepath.Clean\<close> only the removal of trailing slashes is modelled, which is all it
  does on the one path the program passes.
\<close>

definition filepath_Dir :: "string \<Rightarrow> string" where
  "filepath_Dir path =
     (let d = rev (dropWhile (\<lambda>c. c \<noteq> CHR ''/'') (rev path))
      in if d = [] then ''.''
         else (let s = rev (dropWhile (\<lambda>c. c = CHR ''/'') (rev d))
               in if s = [] then ''/'' else s))"

section \<open>Host resolution: \<^verbatim>\<open>parseHost\<close>, \<^verbatim>\<open>parseGCPSSHCmd\<close>\<close>

definition parseGCPSSHCmd :: "world \<Rightarrow> string \<Rightarrow> trace \<Rightarrow> (error + string \<times> string) \<times> trace" where
  "parseGCPSSHCmd w instance t =
     (let dryRunCmd = ''gcloud compute ssh --dry-run '' @ instance;
          res = w_combinedOutput w (length t) ''sh'' [''-c'', dryRunCmd];
          out = fst res;
          t1 = t @ [Exec_CombinedOutput ''sh'' [''-c'', dryRunCmd] out (snd res)]
      in case snd res of
           Some e \<Rightarrow> (Inl (Errorf ''%s: %w'' [out] (Some (External e))), t1)
         | None \<Rightarrow>
             (let toks = strings_Split out CHR '' ''
              in if length toks < 2
                 then (Inl (Errorf ''unexpected output for '%v' command, %s'' [dryRunCmd, out] None), t1)
                 else (let sshFlags = strings_Join (butlast (tl toks)) '' '';
                           userIP = last toks;
                           toks2 = strings_Split userIP CHR ''@'';
                           ip = (if length toks2 < 2 then strings_TrimSpace (toks2 ! 0)
                                 else strings_TrimSpace (toks2 ! 1))
                       in if \<not> w_parseIP w ip
                          then (Inl (Errorf ''parsed invalid ip address %v'' [ip] None), t1)
                          else (Inr (ip, sshFlags), t1))))"

definition parseHost :: "world \<Rightarrow> string \<Rightarrow> trace \<Rightarrow> (error + string \<times> string) \<times> trace" where
  "parseHost w host t =
     (let host = strings_TrimSpace host
      in if strings_HasPrefix host ''gcp:''
         then parseGCPSSHCmd w (strings_TrimPrefix host ''gcp:'') t
         else (Inr (host, []), t))"

section \<open>Ports: \<^verbatim>\<open>randomPort\<close>, \<^verbatim>\<open>parseBindAddr\<close>\<close>

definition minPort :: nat where "minPort = 1024"
definition maxPort :: nat where "maxPort = 65535"
definition maxTries :: nat where "maxTries = 10"

text \<open>
  The loop of \<^verbatim>\<open>randomPort\<close>, from counter \<open>i\<close>. \<^verbatim>\<open>rand.Intn(n)\<close> returns a number below
  \<open>n\<close>: the draw is the random source reduced modulo \<open>n\<close>.
\<close>

function randomPort_loop :: "world \<Rightarrow> nat \<Rightarrow> trace \<Rightarrow> (error + string) \<times> trace" where
  "randomPort_loop w i t =
     (if i < maxTries
      then (let r = w_rand w (length t) mod (maxPort - minPort + 1);
                port = r + minPort;
                t1 = t @ [Rand_Intn (maxPort - minPort + 1) r];
                addr = '':'' @ strconv_Itoa port;
                l = w_listen w (length t1) ''tcp'' addr;
                t2 = t1 @ [Net_Listen ''tcp'' addr l]
            in case l of
                 None \<Rightarrow> (Inr (strconv_Itoa port), t2 @ [Listener_Close])
               | Some e \<Rightarrow> randomPort_loop w (i + 1) (t2 @ [Flog_Info ''port taken: %d'']))
      else (Inl (Errorf ''max number of tries exceeded: %d'' [strconv_Itoa maxTries] None), t))"
  by pat_completeness auto
termination
  by (relation "measure (\<lambda>(w, i, t). maxTries - i)") auto

declare randomPort_loop.simps [simp del]

definition randomPort :: "world \<Rightarrow> trace \<Rightarrow> (error + string) \<times> trace" where
  "randomPort w t = randomPort_loop w 0 t"

definition parseBindAddr :: "world \<Rightarrow> string \<Rightarrow> trace \<Rightarrow> (error + string) \<times> trace" where
  "parseBindAddr w bindAddr t =
     (let bindAddr = (if bindAddr = [] then '':'' else bindAddr)
      in case net_SplitHostPort bindAddr of
           Inl e \<Rightarrow> (Inl (External e), t)
         | Inr (host, port) \<Rightarrow>
             (let host = (if host = [] then ''127.0.0.1'' else host)
              in if port = []
                 then (case randomPort w t of
                         (Inl e, t1) \<Rightarrow> (Inl e, t1)
                       | (Inr port, t1) \<Rightarrow> (Inr (net_JoinHostPort host port), t1))
                 else (Inr (net_JoinHostPort host port), t)))"

section \<open>Synchronisation: \<^verbatim>\<open>ensureDir\<close>, \<^verbatim>\<open>rsync\<close>, \<^verbatim>\<open>syncUserSettings\<close>, \<^verbatim>\<open>syncExtensions\<close>\<close>

text \<open>\<^verbatim>\<open>ensureDir\<close>: stat the path; create it (mode 0750) when it does not exist.\<close>

definition ensureDir :: "world \<Rightarrow> string \<Rightarrow> trace \<Rightarrow> error option \<times> trace" where
  "ensureDir w path t =
     (let st = w_stat w (length t) path;
          t1 = t @ [Os_Stat path st]
      in case st of
           Stat_NotExist _ \<Rightarrow>
             (let r = w_mkdirAll w (length t1) path 488
              in (map_option External r, t1 @ [Os_MkdirAll path 488 r]))
         | Stat_Error e \<Rightarrow> (Some (External e), t1)
         | Stat_Ok \<Rightarrow> (None, t1))"

text \<open>The argument vector \<^verbatim>\<open>rsync\<close> builds: the exclusion flags, then the fixed flags,
  then source and destination.\<close>

definition rsync_args :: "string \<Rightarrow> string \<Rightarrow> string \<Rightarrow> string list \<Rightarrow> string list" where
  "rsync_args src dest sshFlags excludePaths =
     map (\<lambda>path. ''--exclude='' @ path) excludePaths @
     [''-azvr'', ''-e'', ''ssh '' @ sshFlags, ''-u'', ''--times'', ''--delete'',
      ''--copy-unsafe-links'', src, dest]"

definition rsync :: "world \<Rightarrow> string \<Rightarrow> string \<Rightarrow> string \<Rightarrow> string list \<Rightarrow> trace
    \<Rightarrow> error option \<times> trace" where
  "rsync w src dest sshFlags excludePaths t =
     (let args = rsync_args src dest sshFlags excludePaths;
          err = w_run w (length t) ''rsync'' args None;
          t1 = t @ [Exec_Run ''rsync'' args None err]
      in case err of
           Some e \<Rightarrow>
             (Some (Errorf ''failed to rsync '%s' to '%s': %w'' [src, dest] (Some (External e))), t1)
         | None \<Rightarrow> (None, t1))"

definition remoteSettingsDir :: string where
  "remoteSettingsDir = ''~/.local/share/code-server/User/''"

definition remoteExtensionsDir :: string where
  "remoteExtensionsDir = ''~/.local/share/code-server/extensions/''"

text \<open>Appends the record of a finished sync call to the trace.\<close>

definition returning :: "asset \<Rightarrow> bool \<Rightarrow> error option \<times> trace \<Rightarrow> error option \<times> trace" where
  "returning a back r = (fst r, snd r @ [Sync_Return a back (fst r)])"

definition syncUserSettings :: "world \<Rightarrow> string \<Rightarrow> string \<Rightarrow> bool \<Rightarrow> trace
    \<Rightarrow> error option \<times> trace" where
  "syncUserSettings w sshFlags host back t =
     returning Settings back
       (let c = w_configDir w (length t);
            t1 = t @ [Config_Dir c]
        in case c of
             Inl e \<Rightarrow> (Some (External e), t1)
           | Inr localConfDir \<Rightarrow>
               (case ensureDir w localConfDir t1 of
                  (Some e, t2) \<Rightarrow> (Some e, t2)
                | (None, t2) \<Rightarrow>
                    (let src = localConfDir @ ''/'';
                         dest = host @ '':'' @ remoteSettingsDir
                     in if back
                        then rsync w dest src sshFlags [''workspaceStorage'', ''logs'', ''CachedData''] t2
                        else rsync w src dest sshFlags [''workspaceStorage'', ''logs'', ''CachedData''] t2)))"

definition syncExtensions :: "world \<Rightarrow> string \<Rightarrow> string \<Rightarrow> bool \<Rightarrow> trace
    \<Rightarrow> error option \<times> trace" where
  "syncExtensions w sshFlags host back t =
     returning Extensions back
       (let c = w_extensionsDir w (length t);
            t1 = t @ [Extensions_Dir c]
        in case c of
             Inl e \<Rightarrow> (Some (External e), t1)
           | Inr localExtensionsDir \<Rightarrow>
               (case ensureDir w localExtensionsDir t1 of
                  (Some e, t2) \<Rightarrow> (Some e, t2)
                | (None, t2) \<Rightarrow>
                    (let src = localExtensionsDir @ ''/'';
                         dest = host @ '':'' @ remoteExtensionsDir
                     in if back
                        then rsync w dest src sshFlags [] t2
                        else rsync w src dest sshFlags [] t2)))"

section \<open>Opening the browser\<close>

definition chromeOptions :: "string \<Rightarrow> string list" where
  "chromeOptions url = [''--app='' @ url, ''--disable-extensions'', ''--disable-plugins'', ''--incognito'']"

definition commandExists :: "world \<Rightarrow> string \<Rightarrow> trace \<Rightarrow> bool \<times> trace" where
  "commandExists w name t =
     (let found = w_lookPath w (length t) name in (found, t @ [Look_Path name found]))"

definition pathExists :: "world \<Rightarrow> string \<Rightarrow> trace \<Rightarrow> bool \<times> trace" where
  "pathExists w name t =
     (let st = w_stat w (length t) name in (st = Stat_Ok, t @ [Os_Stat name st]))"

definition macPath :: string where
  "macPath = ''/Applications/Google Chrome.app/Contents/MacOS/Google Chrome''"

definition wslPath :: string where
  "wslPath = ''/mnt/c/Program Files (x86)/Google/Chrome/Application/chrome.exe''"

text \<open>The end of \<^verbatim>\<open>openBrowser\<close>, shared by the six cases that set \<^verbatim>\<open>openCmd\<close>:
  start the command; an error is logged.\<close>

definition startBrowser :: "world \<Rightarrow> string \<Rightarrow> string \<Rightarrow> trace \<Rightarrow> trace" where
  "startBrowser w name url t =
     (let err = w_start w (length t) name (chromeOptions url);
          t1 = t @ [Exec_Start name (chromeOptions url) err]
      in case err of
           Some e \<Rightarrow> t1 @ [Flog_Error ''failed to open browser: %v'' e]
         | None \<Rightarrow> t1)"

text \<open>The \<^verbatim>\<open>switch\<close> tries its cases in order and stops at the first that holds.
  \<^verbatim>\<open>openBrowser\<close> has no result: the model returns the trace alone.\<close>

definition openBrowser :: "world \<Rightarrow> string \<Rightarrow> trace \<Rightarrow> trace" where
  "openBrowser w url t =
     (case commandExists w ''google-chrome'' t of
        (True, t1) \<Rightarrow> startBrowser w ''google-chrome'' url t1
      | (False, t1) \<Rightarrow>
     (case commandExists w ''google-chrome-stable'' t1 of
        (True, t2) \<Rightarrow> startBrowser w ''google-chrome-stable'' url t2
      | (False, t2) \<Rightarrow>
     (case commandExists w ''chromium'' t2 of
        (True, t3) \<Rightarrow> startBrowser w ''chromium'' url t3
      | (False, t3) \<Rightarrow>
     (case commandExists w ''chromium-browser'' t3 of
        (True, t4) \<Rightarrow> startBrowser w ''chromium-browser'' url t4
      | (False, t4) \<Rightarrow>
     (case pathExists w macPath t4 of
        (True, t5) \<Rightarrow> startBrowser w macPath url t5
      | (False, t5) \<Rightarrow>
     (case pathExists w wslPath t5 of
        (True, t6) \<Rightarrow> startBrowser w wslPath url t6
      | (False, t6) \<Rightarrow>
          (let err = w_openURL w (length t6) url;
               t7 = t6 @ [Browser_OpenURL url err]
           in case err of
                Some e \<Rightarrow> t7 @ [Flog_Error ''failed to open browser: %v'' e]
              | None \<Rightarrow> t7)))))))"

section \<open>The readiness probe\<close>

text \<open>
  The loop of lines 118 to 129, with a clock in nanoseconds that starts when the context
  is created. \<^verbatim>\<open>ctx.Err()\<close> is non-nil once 15 seconds have passed. An attempt that the
  outside would answer after the 3 seconds of \<^verbatim>\<open>client.Timeout\<close> ends at 3 seconds with a
  transport error. Only the attempts take time. The loop need not end when attempts
  take no time, so it is a partial function: \<open>None\<close> stands for running forever.
\<close>

definition probeDeadline :: nat where "probeDeadline = 15 * 1000000000"

definition clientTimeout :: nat where "clientTimeout = 3 * 1000000000"

definition client_Get :: "world \<Rightarrow> string \<Rightarrow> trace \<Rightarrow> nat \<times> (string + nat)" where
  "client_Get w url t =
     (let a = w_get w (length t) url
      in if clientTimeout \<le> fst a then (clientTimeout, Inl ''Client.Timeout exceeded'')
         else a)"

definition timeoutError :: error where
  "timeoutError =
     Errorf ''code-server didn't start in time: %w'' [] (Some (External ''context deadline exceeded''))"

partial_function (option) waitReady :: "world \<Rightarrow> string \<Rightarrow> nat \<Rightarrow> trace \<Rightarrow> (error option \<times> trace) option" where
  "waitReady w url now t =
     (if probeDeadline \<le> now then Some (Some timeoutError, t)
      else (let a = client_Get w url t
            in case snd a of
                 Inl err \<Rightarrow> waitReady w url (now + fst a) (t @ [Http_Get url (fst a) (Inl err)])
               | Inr status \<Rightarrow> Some (None, t @ [Http_Get url (fst a) (Inr status), Body_Close])))"

declare waitReady.simps [code]

section \<open>The session: \<^verbatim>\<open>sshCode\<close>\<close>

record options =
  skipSync :: bool
  syncBack :: bool
  noOpen :: bool
  bindAddr :: string
  remotePort :: string
  sshFlags :: string

definition codeServerPath :: string where
  "codeServerPath = ''~/.cache/sshcode/sshcode-server''"

definition downloadScript :: "string \<Rightarrow> string" where
  "downloadScript path =
     ''set -euxo pipefail || exit 1'' @ [CHR 0x0A] @ [CHR 0x0A] @
     ''pkill -f '' @ path @ '' || true'' @ [CHR 0x0A] @
     ''mkdir -p ~/.local/share/code-server '' @ filepath_Dir path @ [CHR 0x0A] @
     ''cd '' @ filepath_Dir path @ [CHR 0x0A] @
     ''wget -N https://codesrv-ci.cdr.sh/latest-linux'' @ [CHR 0x0A] @
     ''[ -f '' @ path @ '' ] && rm '' @ path @ [CHR 0x0A] @
     ''ln latest-linux '' @ path @ [CHR 0x0A] @
     ''chmod +x '' @ path"

definition updateErrorFormat :: string where
  "updateErrorFormat =
     ''failed to update code-server: '' @ [CHR 0x0A] @ ''---ssh cmd---'' @ [CHR 0x0A] @ ''%s'' @
     [CHR 0x0A] @ ''---download script---'' @ [CHR 0x0A] @ ''%s: %w''"

text \<open>
  The result of a session: \<^verbatim>\<open>sshCode\<close> returned (with an error or with \<^verbatim>\<open>nil\<close>), or it
  waits in its \<^verbatim>\<open>select\<close> for an event that never comes.
\<close>

datatype outcome = Returned "error option" | Blocked

text \<open>Lines 36 to 72: resolve the host, the bind address and the remote port, then run
  the download script on the remote host. Yields the host and the options as updated.\<close>

definition sshCode_prepare :: "world \<Rightarrow> string \<Rightarrow> options \<Rightarrow> trace
    \<Rightarrow> (error + string \<times> options) \<times> trace" where
  "sshCode_prepare w host0 o0 t =
     (case parseHost w host0 t of
        (Inl e, t1) \<Rightarrow> (Inl (Errorf ''failed to parse host IP: %w'' [] (Some e)), t1)
      | (Inr (host, extraSSHFlags), t1) \<Rightarrow>
     (let o1 = (if extraSSHFlags \<noteq> []
                then o0\<lparr>sshFlags := strings_Join [extraSSHFlags, sshFlags o0] '' ''\<rparr>
                else o0)
      in case parseBindAddr w (bindAddr o1) t1 of
        (Inl e, t2) \<Rightarrow> (Inl (Errorf ''failed to parse bind address: %w'' [] (Some e)), t2)
      | (Inr b, t2) \<Rightarrow>
     (let o2 = o1\<lparr>bindAddr := b\<rparr>
      in case (if remotePort o2 = [] then randomPort w t2 else (Inr (remotePort o2), t2)) of
        (Inl e, t3) \<Rightarrow> (Inl (Errorf ''failed to find available remote port: %w'' [] (Some e)), t3)
      | (Inr p, t3) \<Rightarrow>
     (let o3 = o2\<lparr>remotePort := p\<rparr>;
          dlScript = downloadScript codeServerPath;
          sshCmdStr = ''ssh '' @ sshFlags o3 @ '' '' @ host @ '' /bin/bash'';
          err = w_run w (length t3) ''sh'' [''-c'', sshCmdStr] (Some dlScript);
          t4 = t3 @ [Exec_Run ''sh'' [''-c'', sshCmdStr] (Some dlScript) err]
      in case err of
           Some e \<Rightarrow> (Inl (Errorf updateErrorFormat [sshCmdStr, dlScript] (Some (External e))), t4)
         | None \<Rightarrow> (Inr (host, o3), t4)))))"

text \<open>Lines 74 to 90: the synchronisation before the tunnel starts.\<close>

definition sshCode_syncIn :: "world \<Rightarrow> string \<Rightarrow> options \<Rightarrow> trace \<Rightarrow> error option \<times> trace" where
  "sshCode_syncIn w host o3 t =
     (if \<not> skipSync o3
      then (case syncUserSettings w (sshFlags o3) host False (t @ [Flog_Info ''syncing settings'']) of
              (Some e, t1) \<Rightarrow> (Some (Errorf ''failed to sync settings: %w'' [] (Some e)), t1)
            | (None, t1) \<Rightarrow>
                (case syncExtensions w (sshFlags o3) host False
                        (t1 @ [Flog_Info ''synced settings in %s'', Flog_Info ''syncing extensions'']) of
                   (Some e, t2) \<Rightarrow> (Some (Errorf ''failed to sync extensions: %w'' [] (Some e)), t2)
                 | (None, t2) \<Rightarrow> (None, t2 @ [Flog_Info ''synced extensions in %s''])))
      else (None, t))"

text \<open>Lines 92 to 109: start the tunnel and the remote server.\<close>

definition tunnelCmdStr :: "string \<Rightarrow> string \<Rightarrow> options \<Rightarrow> string" where
  "tunnelCmdStr host dir o3 =
     ''ssh -tt -q -L '' @ bindAddr o3 @ '':localhost:'' @ remotePort o3 @ '' '' @ sshFlags o3 @
     '' '' @ host @ '' '' @ [CHR 0x27] @ ''cd '' @ dir @ ''; '' @ codeServerPath @
     '' --host 127.0.0.1 --allow-http --no-auth --port='' @ remotePort o3 @ [CHR 0x27]"

definition sshCode_startTunnel :: "world \<Rightarrow> string \<Rightarrow> string \<Rightarrow> options \<Rightarrow> trace
    \<Rightarrow> error option \<times> trace" where
  "sshCode_startTunnel w host dir o3 t =
     (let t1 = t @ [Flog_Info ''starting code-server...'', Flog_Info ''Tunneling remote port %v to %v''];
          sshCmdStr = tunnelCmdStr host dir o3;
          err = w_start w (length t1) ''sh'' [''-c'', sshCmdStr];
          t2 = t1 @ [Exec_Start ''sh'' [''-c'', sshCmdStr] err]
      in case err of
           Some e \<Rightarrow> (Some (Errorf ''failed to start code-server: %w'' [] (Some (External e))), t2)
         | None \<Rightarrow> (None, t2))"

text \<open>Lines 150 to 167: the synchronisation after the \<^verbatim>\<open>select\<close> has fired.\<close>

definition sshCode_syncBack :: "world \<Rightarrow> string \<Rightarrow> options \<Rightarrow> trace \<Rightarrow> error option \<times> trace" where
  "sshCode_syncBack w host o3 t =
     (if \<not> syncBack o3 \<or> skipSync o3 then (None, t @ [Flog_Info ''shutting down''])
      else (case syncExtensions w (sshFlags o3) host True
                   (t @ [Flog_Info ''synchronizing VS Code back to local'']) of
              (Some e, t1) \<Rightarrow> (Some (Errorf ''failed to sync extensions back: %w'' [] (Some e)), t1)
            | (None, t1) \<Rightarrow>
                (case syncUserSettings w (sshFlags o3) host True t1 of
                   (Some e, t2) \<Rightarrow>
                     (Some (Errorf ''failed to sync user settings settings back: %w'' [] (Some e)), t2)
                 | (None, t2) \<Rightarrow> (None, t2))))"

text \<open>Lines 131 to 148: open the browser unless told not to, then wait for the tunnel
  to exit or for an interrupt.\<close>

definition sshCode_run :: "world \<Rightarrow> string \<Rightarrow> options \<Rightarrow> trace \<Rightarrow> signal option \<times> trace" where
  "sshCode_run w url o3 t =
     (let t1 = (if \<not> noOpen o3 then openBrowser w url t else t);
          s = w_select w (length t1)
      in (s, t1 @ [Select s]))"

text \<open>The whole of \<^verbatim>\<open>sshCode\<close>, from an empty trace.\<close>

definition sshCode :: "world \<Rightarrow> string \<Rightarrow> string \<Rightarrow> options \<Rightarrow> (outcome \<times> trace) option" where
  "sshCode w host0 dir o0 =
     (case sshCode_prepare w host0 o0 [Flog_Info ''ensuring code-server is updated...''] of
        (Inl e, t1) \<Rightarrow> Some (Returned (Some e), t1)
      | (Inr (host, o3), t1) \<Rightarrow>
     (case sshCode_syncIn w host o3 t1 of
        (Some e, t2) \<Rightarrow> Some (Returned (Some e), t2)
      | (None, t2) \<Rightarrow>
     (case sshCode_startTunnel w host dir o3 t2 of
        (Some e, t3) \<Rightarrow> Some (Returned (Some e), t3)
      | (None, t3) \<Rightarrow>
     (case waitReady w (''http://'' @ bindAddr o3) 0 t3 of
        None \<Rightarrow> None
      | Some (Some e, t4) \<Rightarrow> Some (Returned (Some e), t4)
      | Some (None, t4) \<Rightarrow>
     (case sshCode_run w (''http://'' @ bindAddr o3) o3 t4 of
        (None, t5) \<Rightarrow> Some (Blocked, t5)
      | (Some s, t5) \<Rightarrow>
     (case sshCode_syncBack w host o3 t5 of
        (r, t6) \<Rightarrow> Some (Returned r, t6)))))))"

section \<open>Describing runs\<close>

text \<open>
  The vocabulary of the theorems below: what the events of a part of a run look like.

  The events of one try of \<^verbatim>\<open>randomPort\<close> whose bind fails with the given message, and of
  one whose bind succeeds; the number is the one drawn from the random source.
\<close>

definition failedTry :: "nat \<times> string \<Rightarrow> trace" where
  "failedTry ke =
     [Rand_Intn 64512 (fst ke),
      Net_Listen ''tcp'' ('':'' @ strconv_Itoa (fst ke + 1024)) (Some (snd ke)),
      Flog_Info ''port taken: %d'']"

definition goodTry :: "nat \<Rightarrow> trace" where
  "goodTry k =
     [Rand_Intn 64512 k, Net_Listen ''tcp'' ('':'' @ strconv_Itoa (k + 1024)) None, Listener_Close]"

text \<open>The event of a probe attempt that takes the given time and fails with the given
  transport error.\<close>

definition failedGet :: "string \<Rightarrow> nat \<times> string \<Rightarrow> event" where
  "failedGet url de = Http_Get url (fst de) (Inl (snd de))"

text \<open>The look-ups of \<^verbatim>\<open>openBrowser\<close> (is the command on the path, does the file exist),
  and the ways its launch can end: the command or the default opener started, or it
  failed and the failure was logged.\<close>

definition lookup_event :: "event \<Rightarrow> bool" where
  "lookup_event e = (case e of Look_Path n f \<Rightarrow> True | Os_Stat p st \<Rightarrow> True | _ \<Rightarrow> False)"

definition launch_events :: "string \<Rightarrow> trace \<Rightarrow> bool" where
  "launch_events url l \<longleftrightarrow>
     (\<exists>n. l = [Exec_Start n (chromeOptions url) None]) \<or>
     (\<exists>n e. l = [Exec_Start n (chromeOptions url) (Some e),
                  Flog_Error ''failed to open browser: %v'' e]) \<or>
     l = [Browser_OpenURL url None] \<or>
     (\<exists>e. l = [Browser_OpenURL url (Some e), Flog_Error ''failed to open browser: %v'' e])"

text \<open>
  The milestones of a trace: the returns of the sync calls, the closing of the probe's
  response body (the probe found the server ready) and the \<^verbatim>\<open>select\<close> (the session is
  running; \<open>Select (Some s)\<close> when it ended with signal \<open>s\<close>). \<open>sync_calls\<close> keeps the
  returns of the sync calls only.
\<close>

definition is_sync :: "event \<Rightarrow> bool" where
  "is_sync e = (case e of Sync_Return a b r \<Rightarrow> True | _ \<Rightarrow> False)"

definition is_milestone :: "event \<Rightarrow> bool" where
  "is_milestone e =
     (case e of Sync_Return a b r \<Rightarrow> True | Select s \<Rightarrow> True | Body_Close \<Rightarrow> True | _ \<Rightarrow> False)"

definition milestones :: "trace \<Rightarrow> trace" where
  "milestones t = filter is_milestone t"

definition sync_calls :: "trace \<Rightarrow> trace" where
  "sync_calls t = filter is_sync t"

section \<open>Host resolution as the specification words it\<close>




section \<open>Concrete worlds\<close>

text \<open>
  Worlds on which the functions above are evaluated. \<open>dottedQuad\<close> stands in for
  \<^verbatim>\<open>net.ParseIP\<close>: it accepts four decimal fields between 0 and 255, without leading
  zeros, separated by dots, which every version of the library accepts; it is used on
  such addresses and on strings without a dot or a colon, which the library rejects.
\<close>

definition octet :: "string \<Rightarrow> bool" where
  "octet f \<longleftrightarrow> f \<noteq> [] \<and> length f \<le> 3 \<and> list_all (\<lambda>c. c \<in> set ''0123456789'') f \<and>
     (length f = 1 \<or> hd f \<noteq> CHR ''0'') \<and>
     foldl (\<lambda>a c. 10 * a + (of_char c - 48)) (0::nat) f \<le> 255"

definition dottedQuad :: "string \<Rightarrow> bool" where
  "dottedQuad s \<longleftrightarrow> (let fs = strings_Split s CHR ''.'' in length fs = 4 \<and> list_all octet fs)"

text \<open>In \<open>calm\<close> every call succeeds at once, the cloud helper prints the command line of
  the specification's example, and the user interrupts the session.\<close>

definition calm :: world where
  "calm = \<lparr> w_combinedOutput = (\<lambda>n name args. (''/usr/bin/ssh -i key.pem user@10.0.0.5'', None)),
            w_run = (\<lambda>n name args stdin. None),
            w_start = (\<lambda>n name args. None),
            w_rand = (\<lambda>n. 7000),
            w_listen = (\<lambda>n network addr. None),
            w_configDir = (\<lambda>n. Inr ''/home/u/.config/Code/User''),
            w_extensionsDir = (\<lambda>n. Inr ''/home/u/.vscode/extensions''),
            w_stat = (\<lambda>n path. Stat_Ok),
            w_mkdirAll = (\<lambda>n path perm. None),
            w_get = (\<lambda>n url. (20000000, Inr 200)),
            w_lookPath = (\<lambda>n name. False),
            w_openURL = (\<lambda>n url. None),
            w_select = (\<lambda>n. Some UserInterrupted),
            w_parseIP = dottedQuad \<rparr>"


text \<open>In \<open>full\<close> every port is taken. In \<open>busy\<close> the random source moves on with every
  call and the first two binds fail.\<close>

definition full :: world where
  "full = calm\<lparr> w_listen := (\<lambda>n network addr. Some ''bind: address already in use'') \<rparr>"

definition busy :: world where
  "busy = calm\<lparr> w_rand := (\<lambda>n. n),
                 w_listen := (\<lambda>n network addr.
                    if n < 5 then Some ''bind: address already in use'' else None) \<rparr>"

text \<open>In \<open>sluggish\<close> the first two requests get no answer in time and the third gets a
  503. In \<open>dead\<close> every request is refused after two and a half seconds.\<close>

definition sluggish :: world where
  "sluggish = calm\<lparr> w_get := (\<lambda>n url.
      if n < 2 then (4000000000, Inl ''no answer'') else (1000000, Inr 503)) \<rparr>"

definition dead :: world where
  "dead = calm\<lparr> w_get := (\<lambda>n url. (2500000000, Inl ''connection refused'')) \<rparr>"

text \<open>In \<open>flaky\<close> the transport fails. In \<open>nobrowser\<close> no file exists and no browser can
  be opened.\<close>

definition flaky :: world where
  "flaky = calm\<lparr> w_run := (\<lambda>n name args stdin.
      if name = ''rsync'' then Some ''exit status 23'' else None) \<rparr>"

definition nobrowser :: world where
  "nobrowser = calm\<lparr> w_stat := (\<lambda>n path. Stat_NotExist ''no such file or directory''),
                      w_openURL := (\<lambda>n url. Some ''exec: no browser found'') \<rparr>"

text \<open>The options of the sessions that are evaluated below.\<close>

definition opts :: "bool \<Rightarrow> bool \<Rightarrow> options" where
  "opts skip back =
     \<lparr> skipSync = skip, syncBack = back, noOpen = False, bindAddr = '':8080'',
       remotePort = ''9090'', sshFlags = ''-v'' \<rparr>"

section \<open>The transport invocation\<close>

lemma ensureDir_events:
  "\<exists>evs. snd (ensureDir w p t) = t @ evs \<and>
     (\<forall>e \<in> set evs. (\<exists>a b. e = Os_Stat a b) \<or> (\<exists>a b c. e = Os_MkdirAll a b c))"
  by (auto simp: ensureDir_def Let_def split: stat_result.splits)

lemma rsync_events:
  "snd (rsync w src dest fl ex t) =
     t @ [Exec_Run ''rsync'' (rsync_args src dest fl ex) None
            (w_run w (length t) ''rsync'' (rsync_args src dest fl ex) None)]"
  by (auto simp: rsync_def Let_def split: option.splits)

lemma syncUserSettings_exec:
  assumes "Exec_Run name args stdin res \<in> set (drop (length t) (snd (syncUserSettings w fl h back t)))"
  shows "name = ''rsync'' \<and>
     (\<exists>localDir. args =
        rsync_args (if back then h @ '':'' @ remoteSettingsDir else localDir @ ''/'')
                   (if back then localDir @ ''/'' else h @ '':'' @ remoteSettingsDir)
                   fl [''workspaceStorage'', ''logs'', ''CachedData''])"
proof (cases "w_configDir w (length t)")
  case (Inl e)
  with assms show ?thesis by (simp add: syncUserSettings_def returning_def)
next
  case (Inr d)
  obtain evs where evs: "snd (ensureDir w d (t @ [Config_Dir (Inr d)])) = (t @ [Config_Dir (Inr d)]) @ evs"
    "\<forall>e \<in> set evs. (\<exists>a b. e = Os_Stat a b) \<or> (\<exists>a b c. e = Os_MkdirAll a b c)"
    using ensureDir_events by blast
  show ?thesis
    using Inr evs assms
    by (cases "ensureDir w d (t @ [Config_Dir (Inr d)])")
       (cases "back"; auto simp: syncUserSettings_def returning_def Let_def rsync_events split: option.splits)
qed

lemma syncExtensions_exec:
  assumes "Exec_Run name args stdin res \<in> set (drop (length t) (snd (syncExtensions w fl h back t)))"
  shows "name = ''rsync'' \<and>
     (\<exists>localDir. args =
        rsync_args (if back then h @ '':'' @ remoteExtensionsDir else localDir @ ''/'')
                   (if back then localDir @ ''/'' else h @ '':'' @ remoteExtensionsDir)
                   fl [])"
proof (cases "w_extensionsDir w (length t)")
  case (Inl e)
  with assms show ?thesis by (simp add: syncExtensions_def returning_def)
next
  case (Inr d)
  obtain evs where evs: "snd (ensureDir w d (t @ [Extensions_Dir (Inr d)])) = (t @ [Extensions_Dir (Inr d)]) @ evs"
    "\<forall>e \<in> set evs. (\<exists>a b. e = Os_Stat a b) \<or> (\<exists>a b c. e = Os_MkdirAll a b c)"
    using ensureDir_events by blast
  show ?thesis
    using Inr evs assms
    by (cases "ensureDir w d (t @ [Extensions_Dir (Inr d)])")
       (cases "back"; auto simp: syncExtensions_def returning_def Let_def rsync_events split: option.splits)
qed

text \<open>
  Claim C8. Every command that \<^verbatim>\<open>syncUserSettings\<close> or \<^verbatim>\<open>syncExtensions\<close> runs is
  \<^verbatim>\<open>rsync\<close>, with these arguments in this order: one \<^verbatim>\<open>--exclude=\<close> flag per
  exclusion, then \<^verbatim>\<open>-azvr\<close>, \<^verbatim>\<open>-e\<close>, \<^verbatim>\<open>ssh\<close> followed by the connection flags, \<^verbatim>\<open>-u\<close>,
  \<^verbatim>\<open>--times\<close>, \<^verbatim>\<open>--delete\<close>, \<^verbatim>\<open>--copy-unsafe-links\<close>, the source, the destination. One
  of source and destination is the host, a colon and the remote directory, the other is
  the local directory followed by a slash; \<^verbatim>\<open>back\<close> decides which is which. The
  exclusions are \<^verbatim>\<open>workspaceStorage\<close>, \<^verbatim>\<open>logs\<close>, \<^verbatim>\<open>CachedData\<close> for the settings and none
  for the extensions. And \<^verbatim>\<open>rsync\<close> itself, whatever it is given, runs that one command,
  with one \<^verbatim>\<open>--exclude=\<close> flag for each of its exclusions.
\<close>

theorem sync_transport_shape:
  "(Exec_Run name args stdin res \<in> set (drop (length t) (snd (syncUserSettings w fl h back t))) \<longrightarrow>
      name = ''rsync'' \<and>
      (\<exists>localDir src dest.
         args = [''--exclude=workspaceStorage'', ''--exclude=logs'', ''--exclude=CachedData'',
                 ''-azvr'', ''-e'', ''ssh '' @ fl, ''-u'', ''--times'', ''--delete'',
                 ''--copy-unsafe-links'', src, dest] \<and>
         (if back
          then src = h @ '':~/.local/share/code-server/User/'' \<and> dest = localDir @ ''/''
          else src = localDir @ ''/'' \<and> dest = h @ '':~/.local/share/code-server/User/''))) \<and>
   (Exec_Run name args stdin res \<in> set (drop (length t) (snd (syncExtensions w fl h back t))) \<longrightarrow>
      name = ''rsync'' \<and>
      (\<exists>localDir src dest.
         args = [''-azvr'', ''-e'', ''ssh '' @ fl, ''-u'', ''--times'', ''--delete'',
                 ''--copy-unsafe-links'', src, dest] \<and>
         (if back
          then src = h @ '':~/.local/share/code-server/extensions/'' \<and> dest = localDir @ ''/''
          else src = localDir @ ''/'' \<and> dest = h @ '':~/.local/share/code-server/extensions/''))) \<and>
   (\<exists>r. snd (rsync w source destination fl excludePaths t) =
      t @ [Exec_Run ''rsync''
             (map (\<lambda>path. ''--exclude='' @ path) excludePaths @
              [''-azvr'', ''-e'', ''ssh '' @ fl, ''-u'', ''--times'', ''--delete'',
               ''--copy-unsafe-links'', source, destination])
             None r])"
proof (intro conjI impI)
  show "\<exists>r. snd (rsync w source destination fl excludePaths t) =
      t @ [Exec_Run ''rsync''
             (map (\<lambda>path. ''--exclude='' @ path) excludePaths @
              [''-azvr'', ''-e'', ''ssh '' @ fl, ''-u'', ''--times'', ''--delete'',
               ''--copy-unsafe-links'', source, destination])
             None r]"
    by (simp add: rsync_events rsync_args_def)
next
  assume a: "Exec_Run name args stdin res \<in> set (drop (length t) (snd (syncUserSettings w fl h back t)))"
  from syncUserSettings_exec [OF a] show "name = ''rsync''" by simp
  from syncUserSettings_exec [OF a] show "\<exists>localDir src dest.
         args = [''--exclude=workspaceStorage'', ''--exclude=logs'', ''--exclude=CachedData'',
                 ''-azvr'', ''-e'', ''ssh '' @ fl, ''-u'', ''--times'', ''--delete'',
                 ''--copy-unsafe-links'', src, dest] \<and>
         (if back
          then src = h @ '':~/.local/share/code-server/User/'' \<and> dest = localDir @ ''/''
          else src = localDir @ ''/'' \<and> dest = h @ '':~/.local/share/code-server/User/'')"
    by (cases "back") (auto simp: rsync_args_def remoteSettingsDir_def)
next
  assume a: "Exec_Run name args stdin res \<in> set (drop (length t) (snd (syncExtensions w fl h back t)))"
  from syncExtensions_exec [OF a] show "name = ''rsync''" by simp
  from syncExtensions_exec [OF a] show "\<exists>localDir src dest.
         args = [''-azvr'', ''-e'', ''ssh '' @ fl, ''-u'', ''--times'', ''--delete'',
                 ''--copy-unsafe-links'', src, dest] \<and>
         (if back
          then src = h @ '':~/.local/share/code-server/extensions/'' \<and> dest = localDir @ ''/''
          else src = localDir @ ''/'' \<and> dest = h @ '':~/.local/share/code-server/extensions/'')"
    by (cases "back") (auto simp: rsync_args_def remoteExtensionsDir_def)
qed

lemma syncUserSettings_calm:
  "snd (syncUserSettings calm ''-p 22'' ''10.0.0.5'' True []) =
     [Config_Dir (Inr ''/home/u/.config/Code/User''),
      Os_Stat ''/home/u/.config/Code/User'' Stat_Ok,
      Exec_Run ''rsync''
        [''--exclude=workspaceStorage'', ''--exclude=logs'', ''--exclude=CachedData'', ''-azvr'',
         ''-e'', ''ssh -p 22'', ''-u'', ''--times'', ''--delete'', ''--copy-unsafe-links'',
         ''10.0.0.5:~/.local/share/code-server/User/'', ''/home/u/.config/Code/User/'']
        None None,
      Sync_Return Settings True None]"
  by (simp add: syncUserSettings_def calm_def ensureDir_def rsync_def rsync_args_def
      returning_def remoteSettingsDir_def)

lemma syncExtensions_calm:
  "snd (syncExtensions calm ''-p 22'' ''10.0.0.5'' True []) =
     [Extensions_Dir (Inr ''/home/u/.vscode/extensions''),
      Os_Stat ''/home/u/.vscode/extensions'' Stat_Ok,
      Exec_Run ''rsync''
        [''-azvr'', ''-e'', ''ssh -p 22'', ''-u'', ''--times'', ''--delete'', ''--copy-unsafe-links'',
         ''10.0.0.5:~/.local/share/code-server/extensions/'', ''/home/u/.vscode/extensions/'']
        None None,
      Sync_Return Extensions True None]"
  by (simp add: syncExtensions_def calm_def ensureDir_def rsync_def rsync_args_def
      returning_def remoteExtensionsDir_def)

theorem sync_transport_shape_witness:
  "Exec_Run ''rsync''
      [''--exclude=workspaceStorage'', ''--exclude=logs'', ''--exclude=CachedData'', ''-azvr'',
       ''-e'', ''ssh -p 22'', ''-u'', ''--times'', ''--delete'', ''--copy-unsafe-links'',
       ''10.0.0.5:~/.local/share/code-server/User/'', ''/home/u/.config/Code/User/''] None None
     \<in> set (drop (length ([]::trace)) (snd (syncUserSettings calm ''-p 22'' ''10.0.0.5'' True []))) \<and>
   Exec_Run ''rsync''
      [''-azvr'', ''-e'', ''ssh -p 22'', ''-u'', ''--times'', ''--delete'', ''--copy-unsafe-links'',
       ''10.0.0.5:~/.local/share/code-server/extensions/'', ''/home/u/.vscode/extensions/''] None None
     \<in> set (drop (length ([]::trace)) (snd (syncExtensions calm ''-p 22'' ''10.0.0.5'' True []))) \<and>
   (\<exists>localDir.
      ''/home/u/.config/Code/User/'' = localDir @ ''/'') \<and>
   (\<exists>localDir.
      ''/home/u/.vscode/extensions/'' = localDir @ ''/'')"
  using sync_transport_shape [of "''rsync''"
      "[''--exclude=workspaceStorage'', ''--exclude=logs'', ''--exclude=CachedData'', ''-azvr'',
       ''-e'', ''ssh -p 22'', ''-u'', ''--times'', ''--delete'', ''--copy-unsafe-links'',
       ''10.0.0.5:~/.local/share/code-server/User/'', ''/home/u/.config/Code/User/'']" None None
      "[]" calm "''-p 22''" "''10.0.0.5''" True]
    sync_transport_shape [of "''rsync''"
      "[''-azvr'', ''-e'', ''ssh -p 22'', ''-u'', ''--times'', ''--delete'', ''--copy-unsafe-links'',
       ''10.0.0.5:~/.local/share/code-server/extensions/'', ''/home/u/.vscode/extensions/'']" None None
      "[]" calm "''-p 22''" "''10.0.0.5''" True]
  by (simp add: syncUserSettings_calm syncExtensions_calm)

section \<open>The port allocator\<close>

lemma Itoa_10: "strconv_Itoa 10 = ''10''"
  by (simp add: strconv_Itoa.simps)

lemma Itoa_nonempty: "strconv_Itoa n \<noteq> []"
  by (subst strconv_Itoa.simps) simp

lemma randomPort_loop_spec:
  "i \<le> 10 \<Longrightarrow>
   \<exists>fs. (\<forall>ke \<in> set fs. fst ke < 64512) \<and>
     ((\<exists>k. k < 64512 \<and> length fs < 10 - i \<and>
           randomPort_loop w i t =
             (Inr (strconv_Itoa (k + 1024)), t @ concat (map failedTry fs) @ goodTry k)) \<or>
      (length fs = 10 - i \<and>
           randomPort_loop w i t =
             (Inl (Errorf ''max number of tries exceeded: %d'' [''10''] None),
              t @ concat (map failedTry fs))))"
proof (induction "10 - i" arbitrary: i t)
  case 0
  then have "i = 10" by simp
  then show ?case
    by (intro exI[of _ "[]"]) (simp add: randomPort_loop.simps[of w 10 t] maxTries_def Itoa_10)
next
  case (Suc n)
  then have i: "i < 10" by simp
  define r where "r = w_rand w (length t) mod 64512"
  define t1 where "t1 = t @ [Rand_Intn 64512 r]"
  define addr where "addr = '':'' @ strconv_Itoa (r + 1024)"
  define l where "l = w_listen w (length t1) ''tcp'' addr"
  have r: "r < 64512" by (simp add: r_def)
  show ?case
  proof (cases l)
    case None
    then have "randomPort_loop w i t = (Inr (strconv_Itoa (r + 1024)), t @ goodTry r)"
      using i by (simp add: randomPort_loop.simps[of w i t] maxTries_def minPort_def maxPort_def
          Let_def r_def t1_def addr_def l_def goodTry_def)
    with r i show ?thesis
      by (intro exI[of _ "[]"]) auto
  next
    case (Some e)
    then have step: "randomPort_loop w i t = randomPort_loop w (i + 1) (t @ failedTry (r, e))"
      using i by (simp add: randomPort_loop.simps[of w i t] maxTries_def minPort_def maxPort_def
          Let_def r_def t1_def addr_def l_def failedTry_def)
    have "n = 10 - (i + 1)" "i + 1 \<le> 10" using Suc.hyps(2) i by auto
    from Suc.hyps(1)[OF this, of "t @ failedTry (r, e)"]
    obtain fs where fs: "\<forall>ke \<in> set fs. fst ke < 64512"
      "(\<exists>k. k < 64512 \<and> length fs < 10 - (i + 1) \<and>
           randomPort_loop w (i + 1) (t @ failedTry (r, e)) =
             (Inr (strconv_Itoa (k + 1024)), (t @ failedTry (r, e)) @ concat (map failedTry fs) @ goodTry k)) \<or>
       (length fs = 10 - (i + 1) \<and>
           randomPort_loop w (i + 1) (t @ failedTry (r, e)) =
             (Inl (Errorf ''max number of tries exceeded: %d'' [''10''] None),
              (t @ failedTry (r, e)) @ concat (map failedTry fs)))"
      by blast
    show ?thesis
      using fs r i step
      by (intro exI[of _ "(r, e) # fs"]) auto
  qed
qed

lemma randomPort_cases:
  "\<exists>fs. (\<forall>ke \<in> set fs. fst ke < 64512) \<and>
     ((\<exists>k. k < 64512 \<and> length fs < 10 \<and>
           randomPort w t =
             (Inr (strconv_Itoa (k + 1024)), t @ concat (map failedTry fs) @ goodTry k)) \<or>
      (length fs = 10 \<and>
           randomPort w t =
             (Inl (Errorf ''max number of tries exceeded: %d'' [''10''] None),
              t @ concat (map failedTry fs))))"
  using randomPort_loop_spec [of 0 w t] unfolding randomPort_def by fastforce

text \<open>
  Claim C6. A run of \<^verbatim>\<open>randomPort\<close> is a sequence of tries. Each try draws a number
  \<open>k\<close> below 64512 from the random source and binds port \<open>k + 1024\<close>, a port between
  1024 and 65535 (the distribution of the draw is that of the random source; the port is
  the draw shifted by 1024). A try whose bind fails is logged and followed by another
  try. Either at most nine tries fail and the next one succeeds: then the listener is
  closed and the port of that try is returned. Or ten tries fail, and only then the error
  \<^verbatim>\<open>max number of tries exceeded\<close> is returned.
\<close>

theorem randomPort_spec:
  "\<exists>fs. (\<forall>ke \<in> set fs. fst ke < 64512 \<and> 1024 \<le> fst ke + 1024 \<and> fst ke + 1024 \<le> 65535) \<and>
     ((\<exists>k. k < 64512 \<and> length fs < 10 \<and> 1024 \<le> k + 1024 \<and> k + 1024 \<le> 65535 \<and>
           randomPort w t =
             (Inr (strconv_Itoa (k + 1024)), t @ concat (map failedTry fs) @ goodTry k)) \<or>
      (length fs = 10 \<and>
           randomPort w t =
             (Inl (Errorf ''max number of tries exceeded: %d'' [''10''] None),
              t @ concat (map failedTry fs))))"
proof -
  from randomPort_cases [of w t] obtain fs where fs: "\<forall>ke \<in> set fs. fst ke < 64512"
     "(\<exists>k. k < 64512 \<and> length fs < 10 \<and>
           randomPort w t =
             (Inr (strconv_Itoa (k + 1024)), t @ concat (map failedTry fs) @ goodTry k)) \<or>
      (length fs = 10 \<and>
           randomPort w t =
             (Inl (Errorf ''max number of tries exceeded: %d'' [''10''] None),
              t @ concat (map failedTry fs)))"
    by blast
  then show ?thesis
    by (intro exI[of _ fs]) fastforce
qed

lemma randomPort_busy:
  "randomPort busy [] =
     (Inr (strconv_Itoa (6 + 1024)),
      [] @ concat (map failedTry [(0, ''bind: address already in use''), (3, ''bind: address already in use'')])
      @ goodTry 6)"
  by (simp add: randomPort_def randomPort_loop.simps busy_def calm_def maxTries_def minPort_def
      maxPort_def failedTry_def goodTry_def strconv_Itoa.simps Let_def)

lemma randomPort_full:
  "fst (randomPort full t) = Inl (Errorf ''max number of tries exceeded: %d'' [''10''] None)"
  by (simp add: randomPort_def randomPort_loop.simps full_def calm_def maxTries_def minPort_def
      maxPort_def strconv_Itoa.simps Let_def)

theorem randomPort_spec_witness:
  "randomPort busy [] =
     (Inr (strconv_Itoa (6 + 1024)),
      [] @ concat (map failedTry [(0, ''bind: address already in use''), (3, ''bind: address already in use'')])
      @ goodTry 6) \<and>
   (\<exists>fs. (\<forall>ke \<in> set fs. fst ke < 64512 \<and> 1024 \<le> fst ke + 1024 \<and> fst ke + 1024 \<le> 65535) \<and>
     ((\<exists>k. k < 64512 \<and> length fs < 10 \<and> 1024 \<le> k + 1024 \<and> k + 1024 \<le> 65535 \<and>
           randomPort busy [] =
             (Inr (strconv_Itoa (k + 1024)), [] @ concat (map failedTry fs) @ goodTry k)) \<or>
      (length fs = 10 \<and>
           randomPort busy [] =
             (Inl (Errorf ''max number of tries exceeded: %d'' [''10''] None),
              [] @ concat (map failedTry fs)))))"
  using randomPort_busy randomPort_spec [of busy "[]"] by (rule conjI)

section \<open>The bind address\<close>

lemma SplitHostPort_colon: "net_SplitHostPort '':'' = Inr ([], [])"
  by (simp add: net_SplitHostPort_def lastIndexByte_def addrErr_def)

lemma JoinHostPort_loopback: "net_JoinHostPort ''127.0.0.1'' p = ''127.0.0.1:'' @ p"
  by (simp add: net_JoinHostPort_def)

lemma parseBindAddr_Inl:
  "net_SplitHostPort (if raw = [] then '':'' else raw) = Inl e \<Longrightarrow>
   parseBindAddr w raw t = (Inl (External e), t)"
  by (simp add: parseBindAddr_def)

lemma parseBindAddr_port:
  "net_SplitHostPort (if raw = [] then '':'' else raw) = Inr (h, p) \<Longrightarrow> p \<noteq> [] \<Longrightarrow>
   parseBindAddr w raw t = (Inr (net_JoinHostPort (if h = [] then ''127.0.0.1'' else h) p), t)"
  by (simp add: parseBindAddr_def)

lemma parseBindAddr_alloc:
  assumes "net_SplitHostPort (if raw = [] then '':'' else raw) = Inr (h, [])"
  shows "\<exists>fs. (\<exists>k. k < 64512 \<and> length fs < 10 \<and>
              parseBindAddr w raw t =
                (Inr (net_JoinHostPort (if h = [] then ''127.0.0.1'' else h) (strconv_Itoa (k + 1024))),
                 t @ concat (map failedTry fs) @ goodTry k)) \<or>
         (length fs = 10 \<and>
              parseBindAddr w raw t =
                (Inl (Errorf ''max number of tries exceeded: %d'' [''10''] None),
                 t @ concat (map failedTry fs)))"
proof -
  from randomPort_cases [of w t] obtain fs where
     "(\<exists>k. k < 64512 \<and> length fs < 10 \<and>
           randomPort w t =
             (Inr (strconv_Itoa (k + 1024)), t @ concat (map failedTry fs) @ goodTry k)) \<or>
      (length fs = 10 \<and>
           randomPort w t =
             (Inl (Errorf ''max number of tries exceeded: %d'' [''10''] None),
              t @ concat (map failedTry fs)))"
    by blast
  then show ?thesis
  proof
    assume "\<exists>k. k < 64512 \<and> length fs < 10 \<and>
           randomPort w t =
             (Inr (strconv_Itoa (k + 1024)), t @ concat (map failedTry fs) @ goodTry k)"
    then obtain k where "k < 64512" "length fs < 10"
       "randomPort w t = (Inr (strconv_Itoa (k + 1024)), t @ concat (map failedTry fs) @ goodTry k)"
      by blast
    with assms show ?thesis
      by (intro exI[of _ fs] disjI1 exI[of _ k]) (simp add: parseBindAddr_def)
  next
    assume "length fs = 10 \<and>
           randomPort w t =
             (Inl (Errorf ''max number of tries exceeded: %d'' [''10''] None),
              t @ concat (map failedTry fs))"
    with assms show ?thesis
      by (intro exI[of _ fs] disjI2) (simp add: parseBindAddr_def)
  qed
qed

text \<open>
  Claim C5, as amended. Let the input be split by \<^verbatim>\<open>net.SplitHostPort\<close>, the empty input
  being split as a lone colon. If the split fails, \<^verbatim>\<open>parseBindAddr\<close> fails with the error
  of the split. If it yields a host and a port, the host is replaced by 127.0.0.1 when it
  is empty, so it is never empty. With a non-empty port the result is the host joined
  with the port. With an empty port \<^verbatim>\<open>randomPort\<close> runs: when it finds a port, the result
  is the host joined with that port, which is not empty; when all its ten tries fail,
  \<^verbatim>\<open>parseBindAddr\<close> fails with the error of \<^verbatim>\<open>randomPort\<close>.
\<close>

theorem parseBindAddr_spec:
  "(\<forall>e. net_SplitHostPort (if raw = [] then '':'' else raw) = Inl e \<longrightarrow>
        parseBindAddr w raw t = (Inl (External e), t)) \<and>
   (\<forall>h p. net_SplitHostPort (if raw = [] then '':'' else raw) = Inr (h, p) \<longrightarrow>
      (\<exists>h'. h' = (if h = [] then ''127.0.0.1'' else h) \<and> h' \<noteq> [] \<and>
         (if p \<noteq> [] then parseBindAddr w raw t = (Inr (net_JoinHostPort h' p), t)
          else (\<exists>fs.
             (\<exists>k. k < 64512 \<and> length fs < 10 \<and> strconv_Itoa (k + 1024) \<noteq> [] \<and>
                  parseBindAddr w raw t =
                    (Inr (net_JoinHostPort h' (strconv_Itoa (k + 1024))),
                     t @ concat (map failedTry fs) @ goodTry k)) \<or>
             (length fs = 10 \<and>
                  parseBindAddr w raw t =
                    (Inl (Errorf ''max number of tries exceeded: %d'' [''10''] None),
                     t @ concat (map failedTry fs)))))))"
proof (intro conjI allI impI)
  fix e assume "net_SplitHostPort (if raw = [] then '':'' else raw) = Inl e"
  then show "parseBindAddr w raw t = (Inl (External e), t)" by (rule parseBindAddr_Inl)
next
  fix h p assume s: "net_SplitHostPort (if raw = [] then '':'' else raw) = Inr (h, p)"
  show "\<exists>h'. h' = (if h = [] then ''127.0.0.1'' else h) \<and> h' \<noteq> [] \<and>
         (if p \<noteq> [] then parseBindAddr w raw t = (Inr (net_JoinHostPort h' p), t)
          else (\<exists>fs.
             (\<exists>k. k < 64512 \<and> length fs < 10 \<and> strconv_Itoa (k + 1024) \<noteq> [] \<and>
                  parseBindAddr w raw t =
                    (Inr (net_JoinHostPort h' (strconv_Itoa (k + 1024))),
                     t @ concat (map failedTry fs) @ goodTry k)) \<or>
             (length fs = 10 \<and>
                  parseBindAddr w raw t =
                    (Inl (Errorf ''max number of tries exceeded: %d'' [''10''] None),
                     t @ concat (map failedTry fs)))))"
  proof (cases "p = []")
    case False
    with parseBindAddr_port [OF s, of w t] show ?thesis by auto
  next
    case True
    with parseBindAddr_alloc [of raw h w t] s show ?thesis
      by (simp add: Itoa_nonempty)
  qed
qed

lemma parseBindAddr_calm_8080:
  "net_SplitHostPort ''0.0.0.0:8080'' = Inr (''0.0.0.0'', ''8080'') \<and>
   parseBindAddr calm ''0.0.0.0:8080'' [] = (Inr ''0.0.0.0:8080'', [])"
  by (simp add: parseBindAddr_def net_SplitHostPort_def net_JoinHostPort_def lastIndexByte_def addrErr_def)

lemma parseBindAddr_calm_localhost:
  "net_SplitHostPort ''localhost'' = Inl ''address localhost: missing port in address'' \<and>
   parseBindAddr calm ''localhost'' [] = (Inl (External ''address localhost: missing port in address''), [])"
  by (simp add: parseBindAddr_def net_SplitHostPort_def net_JoinHostPort_def lastIndexByte_def addrErr_def)

theorem parseBindAddr_spec_witness:
  "net_SplitHostPort ''0.0.0.0:8080'' = Inr (''0.0.0.0'', ''8080'') \<and>
   parseBindAddr calm ''0.0.0.0:8080'' [] = (Inr ''0.0.0.0:8080'', []) \<and>
   net_SplitHostPort ''localhost'' = Inl ''address localhost: missing port in address'' \<and>
   parseBindAddr calm ''localhost'' [] = (Inl (External ''address localhost: missing port in address''), [])"
proof -
  have a: "net_SplitHostPort (if ''0.0.0.0:8080'' = [] then '':'' else ''0.0.0.0:8080'') = Inr (''0.0.0.0'', ''8080'')"
    by (simp add: parseBindAddr_calm_8080)
  have j: "net_JoinHostPort ''0.0.0.0'' ''8080'' = ''0.0.0.0:8080''"
    by (simp add: net_JoinHostPort_def)
  from parseBindAddr_spec [of "''0.0.0.0:8080''" calm "[]"] a
  have "\<exists>h'. h' = (if ''0.0.0.0'' = [] then ''127.0.0.1'' else ''0.0.0.0'') \<and> h' \<noteq> [] \<and>
         (if ''8080'' \<noteq> [] then parseBindAddr calm ''0.0.0.0:8080'' [] = (Inr (net_JoinHostPort h' ''8080''), [])
          else (\<exists>fs.
             (\<exists>k. k < 64512 \<and> length fs < 10 \<and> strconv_Itoa (k + 1024) \<noteq> [] \<and>
                  parseBindAddr calm ''0.0.0.0:8080'' [] =
                    (Inr (net_JoinHostPort h' (strconv_Itoa (k + 1024))),
                     [] @ concat (map failedTry fs) @ goodTry k)) \<or>
             (length fs = 10 \<and>
                  parseBindAddr calm ''0.0.0.0:8080'' [] =
                    (Inl (Errorf ''max number of tries exceeded: %d'' [''10''] None),
                     [] @ concat (map failedTry fs)))))"
    by blast
  then have b: "parseBindAddr calm ''0.0.0.0:8080'' [] = (Inr ''0.0.0.0:8080'', [])"
    by (simp add: j)
  have c: "net_SplitHostPort (if ''localhost'' = [] then '':'' else ''localhost'') =
     Inl ''address localhost: missing port in address''"
    by (simp add: parseBindAddr_calm_localhost)
  from parseBindAddr_spec [of "''localhost''" calm "[]"] c
  have d: "parseBindAddr calm ''localhost'' [] =
     (Inl (External ''address localhost: missing port in address''), [])"
    by blast
  from a b c d show ?thesis by simp
qed

lemma randomPort_calm: "randomPort calm t = (Inr ''8024'', t @ goodTry 7000)"
  by (simp add: randomPort_def randomPort_loop.simps calm_def maxTries_def minPort_def
      maxPort_def goodTry_def strconv_Itoa.simps Let_def)

text \<open>
  Against claim C5 as stated: the empty string is not a host and a port (the library
  rejects it), and yet \<^verbatim>\<open>parseBindAddr\<close> succeeds on it; and \<^verbatim>\<open>localhost:\<close> is a host and a
  port, and yet \<^verbatim>\<open>parseBindAddr\<close> fails on it when every port is taken.
\<close>

theorem parseBindAddr_counterexample:
  "net_SplitHostPort [] = Inl ''address : missing port in address'' \<and>
   parseBindAddr calm [] [] = (Inr ''127.0.0.1:8024'', goodTry 7000) \<and>
   net_SplitHostPort ''localhost:'' = Inr (''localhost'', []) \<and>
   fst (parseBindAddr full ''localhost:'' []) =
     Inl (Errorf ''max number of tries exceeded: %d'' [''10''] None)"
proof -
  have a: "net_SplitHostPort [] = Inl ''address : missing port in address''"
    by (simp add: net_SplitHostPort_def lastIndexByte_def addrErr_def)
  have b: "parseBindAddr calm [] [] = (Inr ''127.0.0.1:8024'', goodTry 7000)"
    by (simp add: parseBindAddr_def SplitHostPort_colon randomPort_calm JoinHostPort_loopback)
  have c: "net_SplitHostPort ''localhost:'' = Inr (''localhost'', [])"
    by (simp add: net_SplitHostPort_def lastIndexByte_def addrErr_def)
  have d: "fst (parseBindAddr full ''localhost:'' []) =
     Inl (Errorf ''max number of tries exceeded: %d'' [''10''] None)"
    using randomPort_full [of "[]"]
    by (cases "randomPort full []") (simp add: parseBindAddr_def c)
  from a b c d show ?thesis by simp
qed

text \<open>
  Claim C9, as amended. On the empty string \<^verbatim>\<open>parseBindAddr\<close> does what it does on a lone
  colon. It never fails with the error of the split. Either \<^verbatim>\<open>randomPort\<close> finds a port
  after fewer than ten failed tries, and the result is 127.0.0.1 joined with that port;
  or all ten tries fail, and the result is the error of \<^verbatim>\<open>randomPort\<close>.
\<close>

theorem parseBindAddr_empty:
  "parseBindAddr w [] t = parseBindAddr w '':'' t \<and>
   (\<exists>fs. (\<exists>k. k < 64512 \<and> length fs < 10 \<and>
              parseBindAddr w [] t =
                (Inr (''127.0.0.1:'' @ strconv_Itoa (k + 1024)),
                 t @ concat (map failedTry fs) @ goodTry k)) \<or>
         (length fs = 10 \<and>
              parseBindAddr w [] t =
                (Inl (Errorf ''max number of tries exceeded: %d'' [''10''] None),
                 t @ concat (map failedTry fs))))"
proof
  show "parseBindAddr w [] t = parseBindAddr w '':'' t"
    by (simp add: parseBindAddr_def)
  from parseBindAddr_alloc [of "[]" "[]" w t]
  show "\<exists>fs. (\<exists>k. k < 64512 \<and> length fs < 10 \<and>
              parseBindAddr w [] t =
                (Inr (''127.0.0.1:'' @ strconv_Itoa (k + 1024)),
                 t @ concat (map failedTry fs) @ goodTry k)) \<or>
         (length fs = 10 \<and>
              parseBindAddr w [] t =
                (Inl (Errorf ''max number of tries exceeded: %d'' [''10''] None),
                 t @ concat (map failedTry fs)))"
    by (simp add: SplitHostPort_colon JoinHostPort_loopback)
qed

theorem parseBindAddr_empty_witness:
  "parseBindAddr busy [] [] = parseBindAddr busy '':'' [] \<and>
   (\<exists>fs. (\<exists>k. k < 64512 \<and> length fs < 10 \<and>
              parseBindAddr busy [] [] =
                (Inr (''127.0.0.1:'' @ strconv_Itoa (k + 1024)),
                 [] @ concat (map failedTry fs) @ goodTry k)) \<or>
         (length fs = 10 \<and>
              parseBindAddr busy [] [] =
                (Inl (Errorf ''max number of tries exceeded: %d'' [''10''] None),
                 [] @ concat (map failedTry fs))))"
  by (rule parseBindAddr_empty)

text \<open>Against claim C9 as stated: on the empty string \<^verbatim>\<open>parseBindAddr\<close> does not succeed
  when every port is taken.\<close>

theorem parseBindAddr_empty_counterexample:
  "fst (parseBindAddr full [] []) = Inl (Errorf ''max number of tries exceeded: %d'' [''10''] None)"
  using randomPort_full [of "[]"]
  by (cases "randomPort full []") (simp add: parseBindAddr_def SplitHostPort_colon)

section \<open>Host resolution\<close>

lemma Split_nonempty: "strings_Split s c \<noteq> []"
  by (induction s) (auto split: list.splits)

lemma Split_length: "length (strings_Split s c) = Suc (length (filter (\<lambda>x. x = c) s))"
  by (induction s) (auto split: list.splits simp: Split_nonempty)

lemma Split_short: "length (strings_Split s c) < 2 \<longleftrightarrow> c \<notin> set s"
proof -
  have "length (filter (\<lambda>x. x = c) s) = 0 \<longleftrightarrow> c \<notin> set s"
    by (induction s) auto
  then show ?thesis by (simp add: Split_length)
qed

lemma Split_unfold:
  "strings_Split s c =
     takeWhile (\<lambda>x. x \<noteq> c) s #
       (if c \<in> set s then strings_Split (tl (dropWhile (\<lambda>x. x \<noteq> c) s)) c else [])"
proof (induction s)
  case Nil
  show ?case by simp
next
  case (Cons a s)
  show ?case
  proof (cases "a = c")
    case True
    then show ?thesis by simp
  next
    case False
    then show ?thesis
      by (subst strings_Split.simps, subst Cons.IH) simp
  qed
qed

lemma Split_second:
  "c \<in> set s \<Longrightarrow> strings_Split s c ! Suc 0 = takeWhile (\<lambda>x. x \<noteq> c) (tl (dropWhile (\<lambda>x. x \<noteq> c) s))"
proof -
  assume c: "c \<in> set s"
  have "strings_Split s c ! Suc 0 = hd (strings_Split (tl (dropWhile (\<lambda>x. x \<noteq> c) s)) c)"
    using c by (subst Split_unfold) (simp add: hd_conv_nth Split_nonempty)
  also have "\<dots> = takeWhile (\<lambda>x. x \<noteq> c) (tl (dropWhile (\<lambda>x. x \<noteq> c) s))"
    by (subst Split_unfold) simp
  finally show ?thesis .
qed

lemma Split_only: "c \<notin> set s \<Longrightarrow> strings_Split s c ! 0 = s"
  by (subst Split_unfold) auto

text \<open>The address \<^verbatim>\<open>parseGCPSSHCmd\<close> reads from the final piece of the output: without an
  \<^verbatim>\<open>@\<close> the piece itself, otherwise the text from its first \<^verbatim>\<open>@\<close> to the next one (or to
  the end); white space around it is removed.\<close>

lemma extracted_ip:
  "(if length (strings_Split u CHR ''@'') < 2 then strings_TrimSpace (strings_Split u CHR ''@'' ! 0)
    else strings_TrimSpace (strings_Split u CHR ''@'' ! 1)) =
   strings_TrimSpace
     (if CHR ''@'' \<in> set u
      then takeWhile (\<lambda>x. x \<noteq> CHR ''@'') (tl (dropWhile (\<lambda>x. x \<noteq> CHR ''@'') u))
      else u)"
proof (cases "CHR ''@'' \<in> set u")
  case True
  then show ?thesis by (simp add: Split_short Split_second)
next
  case False
  then show ?thesis by (simp add: Split_short Split_only)
qed










section \<open>The readiness probe\<close>

lemma client_Get_bounds:
  "fst (client_Get w url t) \<le> clientTimeout"
  "snd (client_Get w url t) = Inr s \<Longrightarrow> fst (client_Get w url t) < clientTimeout"
  "0 < fst (w_get w (length t) url) \<Longrightarrow> 0 < fst (client_Get w url t)"
  by (auto simp: client_Get_def Let_def clientTimeout_def split: if_splits)

lemma waitReady_runs:
  assumes pos: "\<forall>n. 0 < fst (w_get w n url)"
  shows "\<exists>fs. (\<forall>de \<in> set fs. 0 < fst de \<and> fst de \<le> clientTimeout) \<and>
     ((\<exists>d s. d < clientTimeout \<and> now + sum_list (map fst fs) < probeDeadline \<and>
          waitReady w url now t =
            Some (None, t @ map (failedGet url) fs @ [Http_Get url d (Inr s), Body_Close])) \<or>
      (probeDeadline \<le> now + sum_list (map fst fs) \<and>
       (fs = [] \<or> now + sum_list (map fst (butlast fs)) < probeDeadline) \<and>
       waitReady w url now t = Some (Some timeoutError, t @ map (failedGet url) fs)))"
proof (induction "probeDeadline - now" arbitrary: now t rule: less_induct)
  case less
  show ?case
  proof (cases "probeDeadline \<le> now")
    case True
    then have "waitReady w url now t = Some (Some timeoutError, t)"
      by (subst waitReady.simps) simp
    with True show ?thesis
      by (intro exI[of _ "[]"]) simp
  next
    case False
    define a where "a = client_Get w url t"
    have d0: "0 < fst a" and d3: "fst a \<le> clientTimeout"
      using pos client_Get_bounds(1) [of w url t] client_Get_bounds(3) [of w t url]
      by (simp_all add: a_def)
    show ?thesis
    proof (cases "snd a")
      case (Inr s)
      then have "waitReady w url now t = Some (None, t @ [Http_Get url (fst a) (Inr s), Body_Close])"
        using False by (subst waitReady.simps) (simp add: a_def Let_def)
      moreover have "fst a < clientTimeout"
        using Inr client_Get_bounds(2) [of w url t s] by (simp add: a_def)
      ultimately show ?thesis
        using False by (intro exI[of _ "[]"]) auto
    next
      case (Inl e)
      then have step: "waitReady w url now t =
          waitReady w url (now + fst a) (t @ [failedGet url (fst a, e)])"
        using False by (subst waitReady.simps) (simp add: a_def Let_def failedGet_def)
      have "probeDeadline - (now + fst a) < probeDeadline - now"
        using False d0 by simp
      from less [OF this, of "t @ [failedGet url (fst a, e)]"]
      obtain fs where fs: "\<forall>de \<in> set fs. 0 < fst de \<and> fst de \<le> clientTimeout"
        "(\<exists>d s. d < clientTimeout \<and> now + fst a + sum_list (map fst fs) < probeDeadline \<and>
          waitReady w url (now + fst a) (t @ [failedGet url (fst a, e)]) =
            Some (None, (t @ [failedGet url (fst a, e)]) @ map (failedGet url) fs @
                          [Http_Get url d (Inr s), Body_Close])) \<or>
         (probeDeadline \<le> now + fst a + sum_list (map fst fs) \<and>
          (fs = [] \<or> now + fst a + sum_list (map fst (butlast fs)) < probeDeadline) \<and>
          waitReady w url (now + fst a) (t @ [failedGet url (fst a, e)]) =
            Some (Some timeoutError, (t @ [failedGet url (fst a, e)]) @ map (failedGet url) fs))"
        by blast
      from fs(2) show ?thesis
      proof
        assume "\<exists>d s. d < clientTimeout \<and> now + fst a + sum_list (map fst fs) < probeDeadline \<and>
          waitReady w url (now + fst a) (t @ [failedGet url (fst a, e)]) =
            Some (None, (t @ [failedGet url (fst a, e)]) @ map (failedGet url) fs @
                          [Http_Get url d (Inr s), Body_Close])"
        then obtain d s where "d < clientTimeout" "now + fst a + sum_list (map fst fs) < probeDeadline"
          "waitReady w url (now + fst a) (t @ [failedGet url (fst a, e)]) =
            Some (None, (t @ [failedGet url (fst a, e)]) @ map (failedGet url) fs @
                          [Http_Get url d (Inr s), Body_Close])"
          by blast
        with fs(1) d0 d3 step show ?thesis
          by (intro exI[of _ "(fst a, e) # fs"] conjI disjI1 exI[of _ d] exI[of _ s])
             (simp_all add: add.assoc)
      next
        assume r: "probeDeadline \<le> now + fst a + sum_list (map fst fs) \<and>
          (fs = [] \<or> now + fst a + sum_list (map fst (butlast fs)) < probeDeadline) \<and>
          waitReady w url (now + fst a) (t @ [failedGet url (fst a, e)]) =
            Some (Some timeoutError, (t @ [failedGet url (fst a, e)]) @ map (failedGet url) fs)"
        have b: "now + sum_list (map fst (butlast ((fst a, e) # fs))) < probeDeadline"
          using r False by (cases "fs = []") (simp_all add: add.assoc)
        from r fs(1) d0 d3 step b show ?thesis
          by (intro exI[of _ "(fst a, e) # fs"] conjI disjI2)
             (simp_all add: add.assoc del: butlast.simps)
      qed
    qed
  qed
qed

text \<open>
  Claim C4. Before the deadline, an attempt that gets a response makes the probe return
  ready, whatever the status code, after closing the body; an attempt that fails is
  followed at once by the next iteration, the clock being where the failed attempt left
  it; once the deadline has passed the probe returns the timeout error. When every
  attempt takes some time the probe returns, and its run is a sequence of failed attempts
  followed either by an attempt that began before the deadline and got a response (then
  the result is ready), or by nothing, the deadline having passed during the last failed
  attempt (then, and only then, the result is the timeout error).
\<close>

theorem waitReady_spec:
  "(\<forall>d s. now < probeDeadline \<and> client_Get w url t = (d, Inr s) \<longrightarrow>
       waitReady w url now t = Some (None, t @ [Http_Get url d (Inr s), Body_Close])) \<and>
   (\<forall>d e. now < probeDeadline \<and> client_Get w url t = (d, Inl e) \<longrightarrow>
       waitReady w url now t = waitReady w url (now + d) (t @ [Http_Get url d (Inl e)])) \<and>
   (probeDeadline \<le> now \<longrightarrow> waitReady w url now t = Some (Some timeoutError, t)) \<and>
   ((\<forall>n. 0 < fst (w_get w n url)) \<longrightarrow>
    (\<exists>fs. (\<forall>de \<in> set fs. 0 < fst de \<and> fst de \<le> clientTimeout) \<and>
     ((\<exists>d s. d < clientTimeout \<and> now + sum_list (map fst fs) < probeDeadline \<and>
          waitReady w url now t =
            Some (None, t @ map (failedGet url) fs @ [Http_Get url d (Inr s), Body_Close])) \<or>
      (probeDeadline \<le> now + sum_list (map fst fs) \<and>
       (fs = [] \<or> now + sum_list (map fst (butlast fs)) < probeDeadline) \<and>
       waitReady w url now t = Some (Some timeoutError, t @ map (failedGet url) fs)))))"
proof (intro conjI allI impI)
  fix d s assume "now < probeDeadline \<and> client_Get w url t = (d, Inr s)"
  then show "waitReady w url now t = Some (None, t @ [Http_Get url d (Inr s), Body_Close])"
    by (subst waitReady.simps) simp
next
  fix d e assume "now < probeDeadline \<and> client_Get w url t = (d, Inl e)"
  then show "waitReady w url now t = waitReady w url (now + d) (t @ [Http_Get url d (Inl e)])"
    by (subst waitReady.simps) simp
next
  assume "probeDeadline \<le> now"
  then show "waitReady w url now t = Some (Some timeoutError, t)"
    by (subst waitReady.simps) simp
next
  assume "\<forall>n. 0 < fst (w_get w n url)"
  then show "\<exists>fs. (\<forall>de \<in> set fs. 0 < fst de \<and> fst de \<le> clientTimeout) \<and>
     ((\<exists>d s. d < clientTimeout \<and> now + sum_list (map fst fs) < probeDeadline \<and>
          waitReady w url now t =
            Some (None, t @ map (failedGet url) fs @ [Http_Get url d (Inr s), Body_Close])) \<or>
      (probeDeadline \<le> now + sum_list (map fst fs) \<and>
       (fs = [] \<or> now + sum_list (map fst (butlast fs)) < probeDeadline) \<and>
       waitReady w url now t = Some (Some timeoutError, t @ map (failedGet url) fs)))"
    by (rule waitReady_runs)
qed

lemma waitReady_sluggish:
  "waitReady sluggish ''http://127.0.0.1:8024'' 0 [] =
     Some (None,
       [Http_Get ''http://127.0.0.1:8024'' 3000000000 (Inl ''Client.Timeout exceeded''),
        Http_Get ''http://127.0.0.1:8024'' 3000000000 (Inl ''Client.Timeout exceeded''),
        Http_Get ''http://127.0.0.1:8024'' 1000000 (Inr 503), Body_Close])"
  by (simp add: waitReady.simps client_Get_def sluggish_def calm_def probeDeadline_def
      clientTimeout_def Let_def)

lemma waitReady_dead:
  "waitReady dead ''http://127.0.0.1:8024'' 0 [] =
     Some (Some timeoutError,
       [Http_Get ''http://127.0.0.1:8024'' 2500000000 (Inl ''connection refused''),
        Http_Get ''http://127.0.0.1:8024'' 2500000000 (Inl ''connection refused''),
        Http_Get ''http://127.0.0.1:8024'' 2500000000 (Inl ''connection refused''),
        Http_Get ''http://127.0.0.1:8024'' 2500000000 (Inl ''connection refused''),
        Http_Get ''http://127.0.0.1:8024'' 2500000000 (Inl ''connection refused''),
        Http_Get ''http://127.0.0.1:8024'' 2500000000 (Inl ''connection refused'')])"
  by (simp add: waitReady.simps client_Get_def dead_def calm_def probeDeadline_def
      clientTimeout_def Let_def)

theorem waitReady_spec_witness:
  "(\<forall>n. 0 < fst (w_get dead n ''http://127.0.0.1:8024'')) \<and>
   waitReady dead ''http://127.0.0.1:8024'' 0 [] =
     Some (Some timeoutError,
       [Http_Get ''http://127.0.0.1:8024'' 2500000000 (Inl ''connection refused''),
        Http_Get ''http://127.0.0.1:8024'' 2500000000 (Inl ''connection refused''),
        Http_Get ''http://127.0.0.1:8024'' 2500000000 (Inl ''connection refused''),
        Http_Get ''http://127.0.0.1:8024'' 2500000000 (Inl ''connection refused''),
        Http_Get ''http://127.0.0.1:8024'' 2500000000 (Inl ''connection refused''),
        Http_Get ''http://127.0.0.1:8024'' 2500000000 (Inl ''connection refused'')]) \<and>
   (\<forall>n. 0 < fst (w_get sluggish n ''http://127.0.0.1:8024'')) \<and>
   (\<exists>fs. (\<exists>d s. d < clientTimeout \<and> 0 + sum_list (map fst fs) < probeDeadline \<and>
          waitReady sluggish ''http://127.0.0.1:8024'' 0 [] =
            Some (None, [] @ map (failedGet ''http://127.0.0.1:8024'') fs @
                          [Http_Get ''http://127.0.0.1:8024'' d (Inr s), Body_Close])))"
proof -
  have a: "\<forall>n. 0 < fst (w_get dead n ''http://127.0.0.1:8024'')"
    by (simp add: dead_def calm_def)
  have b: "\<forall>n. 0 < fst (w_get sluggish n ''http://127.0.0.1:8024'')"
    by (simp add: sluggish_def calm_def)
  from waitReady_spec [of 0 sluggish "''http://127.0.0.1:8024''" "[]"] b
  obtain fs where
     "(\<exists>d s. d < clientTimeout \<and> 0 + sum_list (map fst fs) < probeDeadline \<and>
          waitReady sluggish ''http://127.0.0.1:8024'' 0 [] =
            Some (None, [] @ map (failedGet ''http://127.0.0.1:8024'') fs @
                          [Http_Get ''http://127.0.0.1:8024'' d (Inr s), Body_Close])) \<or>
      (probeDeadline \<le> 0 + sum_list (map fst fs) \<and>
       (fs = [] \<or> 0 + sum_list (map fst (butlast fs)) < probeDeadline) \<and>
       waitReady sluggish ''http://127.0.0.1:8024'' 0 [] =
         Some (Some timeoutError, [] @ map (failedGet ''http://127.0.0.1:8024'') fs))"
    by blast
  then have c: "\<exists>fs. (\<exists>d s. d < clientTimeout \<and> 0 + sum_list (map fst fs) < probeDeadline \<and>
          waitReady sluggish ''http://127.0.0.1:8024'' 0 [] =
            Some (None, [] @ map (failedGet ''http://127.0.0.1:8024'') fs @
                          [Http_Get ''http://127.0.0.1:8024'' d (Inr s), Body_Close]))"
    unfolding waitReady_sluggish by auto
  from a waitReady_dead b c show ?thesis by blast
qed

section \<open>The milestones of each part of a session\<close>

lemma ms_append: "milestones (t @ u) = milestones t @ milestones u"
  by (simp add: milestones_def)

lemma ms_single:
  "milestones [e] = (if is_milestone e then [e] else [])"
  by (simp add: milestones_def)

lemma ms_Cons:
  "milestones (e # t) = (if is_milestone e then e # milestones t else milestones t)"
  by (simp add: milestones_def)

lemma ms_Nil: "milestones [] = []"
  by (simp add: milestones_def)

lemma is_milestone_simps:
  "\<not> is_milestone (Exec_CombinedOutput a b c d)"
  "\<not> is_milestone (Exec_Run a b e d)"
  "\<not> is_milestone (Exec_Start a b d)"
  "\<not> is_milestone (Rand_Intn n m)"
  "\<not> is_milestone (Net_Listen a a' d)"
  "\<not> is_milestone Listener_Close"
  "\<not> is_milestone (Config_Dir x)"
  "\<not> is_milestone (Extensions_Dir x)"
  "\<not> is_milestone (Os_Stat a st)"
  "\<not> is_milestone (Os_MkdirAll a n d)"
  "\<not> is_milestone (Http_Get a n y)"
  "is_milestone Body_Close"
  "\<not> is_milestone (Look_Path a f)"
  "\<not> is_milestone (Browser_OpenURL a d)"
  "\<not> is_milestone (Flog_Info a)"
  "\<not> is_milestone (Flog_Error a a')"
  "is_milestone (Select s)"
  "is_milestone (Sync_Return as bk r)"
  by (simp_all add: is_milestone_def)

lemmas ms = ms_append ms_Cons ms_Nil is_milestone_simps

lemma ms_parseHost: "parseHost w h t = (r, t') \<Longrightarrow> milestones t' = milestones t"
  by (auto simp: parseHost_def parseGCPSSHCmd_def Let_def ms split: option.splits if_splits)

lemma ms_failedTries: "milestones (concat (map failedTry fs)) = []"
  by (induction fs) (simp_all add: ms failedTry_def)

lemma ms_randomPort: "randomPort w t = (r, t') \<Longrightarrow> milestones t' = milestones t"
  using randomPort_cases [of w t]
  by (auto simp: ms ms_failedTries goodTry_def)

lemma ms_parseBindAddr: "parseBindAddr w b t = (r, t') \<Longrightarrow> milestones t' = milestones t"
  by (auto simp: parseBindAddr_def Let_def split: sum.splits prod.splits if_splits
      dest: ms_randomPort)

lemma ms_prepare:
  assumes "sshCode_prepare w h0 o0 t = (r, t')"
  shows "milestones t' = milestones t \<and>
     (\<forall>h o3. r = Inr (h, o3) \<longrightarrow>
        skipSync o3 = skipSync o0 \<and> syncBack o3 = syncBack o0 \<and> noOpen o3 = noOpen o0)"
  using assms
  by (auto simp: sshCode_prepare_def Let_def ms
      split: sum.splits prod.splits option.splits if_splits
      dest!: ms_parseHost ms_parseBindAddr ms_randomPort)

lemma ms_ensureDir: "ensureDir w p t = (r, t') \<Longrightarrow> milestones t' = milestones t"
  by (auto simp: ensureDir_def Let_def ms split: stat_result.splits)

lemma ms_rsync: "rsync w s d f x t = (r, t') \<Longrightarrow> milestones t' = milestones t"
  by (auto simp: rsync_def Let_def ms split: option.splits)

lemma ms_rsync_snd: "milestones (snd (rsync w s d f x t)) = milestones t"
  by (cases "rsync w s d f x t") (simp add: ms_rsync)

lemma ms_syncUserSettings:
  "syncUserSettings w f h b t = (r, t') \<Longrightarrow>
   milestones t' = milestones t @ [Sync_Return Settings b r]"
  by (auto simp: syncUserSettings_def returning_def Let_def ms ms_rsync_snd
      split: sum.splits prod.splits option.splits if_splits
      dest!: ms_ensureDir ms_rsync)

lemma ms_syncExtensions:
  "syncExtensions w f h b t = (r, t') \<Longrightarrow>
   milestones t' = milestones t @ [Sync_Return Extensions b r]"
  by (auto simp: syncExtensions_def returning_def Let_def ms ms_rsync_snd
      split: sum.splits prod.splits option.splits if_splits
      dest!: ms_ensureDir ms_rsync)
lemma ms_syncIn:
  assumes "sshCode_syncIn w h o3 t = (r, t')"
  shows "(skipSync o3 \<and> r = None \<and> milestones t' = milestones t) \<or>
     (\<not> skipSync o3 \<and>
       ((\<exists>e. r = Some (Errorf ''failed to sync settings: %w'' [] (Some e)) \<and>
             milestones t' = milestones t @ [Sync_Return Settings False (Some e)]) \<or>
        (\<exists>e. r = Some (Errorf ''failed to sync extensions: %w'' [] (Some e)) \<and>
             milestones t' = milestones t @
               [Sync_Return Settings False None, Sync_Return Extensions False (Some e)]) \<or>
        (r = None \<and>
             milestones t' = milestones t @
               [Sync_Return Settings False None, Sync_Return Extensions False None])))"
  using assms
  by (auto simp: sshCode_syncIn_def ms split: prod.splits option.splits if_splits
      dest!: ms_syncUserSettings ms_syncExtensions)

lemma ms_syncBack:
  assumes "sshCode_syncBack w h o3 t = (r, t')"
  shows "((\<not> syncBack o3 \<or> skipSync o3) \<and> r = None \<and> milestones t' = milestones t) \<or>
     (syncBack o3 \<and> \<not> skipSync o3 \<and>
       ((\<exists>e. r = Some (Errorf ''failed to sync extensions back: %w'' [] (Some e)) \<and>
             milestones t' = milestones t @ [Sync_Return Extensions True (Some e)]) \<or>
        (\<exists>e. r = Some (Errorf ''failed to sync user settings settings back: %w'' [] (Some e)) \<and>
             milestones t' = milestones t @
               [Sync_Return Extensions True None, Sync_Return Settings True (Some e)]) \<or>
        (r = None \<and>
             milestones t' = milestones t @
               [Sync_Return Extensions True None, Sync_Return Settings True None])))"
  using assms
  by (auto simp: sshCode_syncBack_def ms split: prod.splits option.splits if_splits
      dest!: ms_syncUserSettings ms_syncExtensions)

lemma ms_startTunnel:
  assumes "sshCode_startTunnel w h d o3 t = (r, t')"
  shows "milestones t' = milestones t \<and>
     (r = None \<or>
      (\<exists>e. r = Some (Errorf ''failed to start code-server: %w'' [] (Some (External e)))))"
  using assms
  by (auto simp: sshCode_startTunnel_def Let_def ms split: option.splits)

lemma ms_waitReady:
  assumes "waitReady w url now t = Some rt"
  shows "(fst rt = None \<and> milestones (snd rt) = milestones t @ [Body_Close]) \<or>
   (fst rt = Some timeoutError \<and> milestones (snd rt) = milestones t)"
proof (rule waitReady.raw_induct [where P = "\<lambda>w url now t rt.
     (fst rt = None \<and> milestones (snd rt) = milestones t @ [Body_Close]) \<or>
     (fst rt = Some timeoutError \<and> milestones (snd rt) = milestones t)", OF _ assms])
  fix f :: "world \<Rightarrow> string \<Rightarrow> nat \<Rightarrow> trace \<Rightarrow> (error option \<times> trace) option"
  fix w url now t rt
  assume IH: "\<And>w url now t y. f w url now t = Some y \<Longrightarrow>
     (fst y = None \<and> milestones (snd y) = milestones t @ [Body_Close]) \<or>
     (fst y = Some timeoutError \<and> milestones (snd y) = milestones t)"
  assume body: "(if probeDeadline \<le> now then Some (Some timeoutError, t)
      else (let a = client_Get w url t
            in case snd a of
                 Inl err \<Rightarrow> f w url (now + fst a) (t @ [Http_Get url (fst a) (Inl err)])
               | Inr status \<Rightarrow> Some (None, t @ [Http_Get url (fst a) (Inr status), Body_Close]))) =
      Some rt"
  show "(fst rt = None \<and> milestones (snd rt) = milestones t @ [Body_Close]) \<or>
     (fst rt = Some timeoutError \<and> milestones (snd rt) = milestones t)"
  proof (cases "probeDeadline \<le> now")
    case True
    with body show ?thesis by auto
  next
    case False
    show ?thesis
    proof (cases "snd (client_Get w url t)")
      case (Inl e)
      with False body have
        "f w url (now + fst (client_Get w url t))
           (t @ [Http_Get url (fst (client_Get w url t)) (Inl e)]) = Some rt"
        by (simp add: Let_def)
      from IH [OF this] show ?thesis by (simp add: ms)
    next
      case (Inr s)
      with False body show ?thesis by (auto simp: Let_def ms)
    qed
  qed
qed

lemma ms_startBrowser: "milestones (startBrowser w n url t) = milestones t"
  by (simp add: startBrowser_def Let_def ms split: option.splits)

lemma ms_openBrowser: "milestones (openBrowser w url t) = milestones t"
  by (simp add: openBrowser_def commandExists_def pathExists_def Let_def ms ms_startBrowser
      split: option.splits bool.splits)

lemma ms_run: "sshCode_run w url o3 t = (s, t') \<Longrightarrow> milestones t' = milestones t @ [Select s]"
  by (auto simp: sshCode_run_def Let_def ms ms_openBrowser)
text \<open>
  Every session that returns or blocks, by its outcome and its milestones: the
  preparation failed; or the first or the second sync before the tunnel failed; or,
  after the syncs before the tunnel (none when \<open>skipSync\<close> is set), the tunnel did not
  start, the probe timed out, the session blocked in its \<^verbatim>\<open>select\<close>, or the \<^verbatim>\<open>select\<close>
  fired and the session ended, with or without the syncs back.
\<close>

lemma session_shape:
  assumes s: "sshCode w host dir o0 = Some (out, tr)"
  shows "(\<exists>e. out = Returned (Some e) \<and> milestones tr = [] \<and>
            fst (sshCode_prepare w host o0 [Flog_Info ''ensuring code-server is updated...'']) = Inl e) \<or>
     (\<exists>h o3. fst (sshCode_prepare w host o0 [Flog_Info ''ensuring code-server is updated...'']) = Inr (h, o3) \<and>
        ((\<not> skipSync o0 \<and>
          (\<exists>e. out = Returned (Some (Errorf ''failed to sync settings: %w'' [] (Some e))) \<and>
               milestones tr = [Sync_Return Settings False (Some e)])) \<or>
         (\<not> skipSync o0 \<and>
          (\<exists>e. out = Returned (Some (Errorf ''failed to sync extensions: %w'' [] (Some e))) \<and>
               milestones tr = [Sync_Return Settings False None, Sync_Return Extensions False (Some e)])) \<or>
         (\<exists>post. milestones tr =
              (if skipSync o0 then []
               else [Sync_Return Settings False None, Sync_Return Extensions False None]) @ post \<and>
            ((\<exists>e. post = [] \<and>
                  out = Returned (Some (Errorf ''failed to start code-server: %w'' [] (Some (External e))))) \<or>
             (post = [] \<and> out = Returned (Some timeoutError)) \<or>
             (post = [Body_Close, Select None] \<and> out = Blocked) \<or>
             (\<exists>sg. (\<not> syncBack o0 \<or> skipSync o0) \<and> post = [Body_Close, Select (Some sg)] \<and>
                   out = Returned None) \<or>
             (\<exists>sg e. syncBack o0 \<and> \<not> skipSync o0 \<and>
                   post = [Body_Close, Select (Some sg), Sync_Return Extensions True (Some e)] \<and>
                   out = Returned (Some (Errorf ''failed to sync extensions back: %w'' [] (Some e)))) \<or>
             (\<exists>sg e. syncBack o0 \<and> \<not> skipSync o0 \<and>
                   post = [Body_Close, Select (Some sg), Sync_Return Extensions True None,
                           Sync_Return Settings True (Some e)] \<and>
                   out = Returned (Some (Errorf ''failed to sync user settings settings back: %w'' []
                                           (Some e)))) \<or>
             (\<exists>sg. syncBack o0 \<and> \<not> skipSync o0 \<and>
                   post = [Body_Close, Select (Some sg), Sync_Return Extensions True None,
                           Sync_Return Settings True None] \<and>
                   out = Returned None)))))"
proof -
  define t0 where "t0 = [Flog_Info ''ensuring code-server is updated...'']"
  obtain r1 t1 where p: "sshCode_prepare w host o0 t0 = (r1, t1)" by force
  from ms_prepare [OF p, THEN conjunct1] have m1: "milestones t1 = []"
    by (simp add: t0_def ms)
  note fl = ms_prepare [OF p, THEN conjunct2]
  show ?thesis
  proof (cases r1)
    case (Inl e)
    with s p have "out = Returned (Some e)" "tr = t1"
      by (simp_all add: sshCode_def t0_def)
    with m1 p Inl show ?thesis by (simp add: t0_def)
  next
    case (Inr ho)
    obtain h o3 where ho: "ho = (h, o3)" by force
    with Inr fl have f3: "skipSync o3 = skipSync o0" "syncBack o3 = syncBack o0" by simp_all
    have pr: "fst (sshCode_prepare w host o0 [Flog_Info ''ensuring code-server is updated...'']) =
        Inr (h, o3)"
      using p Inr ho by (simp add: t0_def)
    obtain r2 t2 where si: "sshCode_syncIn w h o3 t1 = (r2, t2)" by force
    note A = ms_syncIn [OF si, unfolded m1 f3 append_Nil]
    show ?thesis
    proof (cases r2)
      case (Some e)
      with s p Inr ho si have "out = Returned (Some e)" "tr = t2"
        by (simp_all add: sshCode_def t0_def)
      with Some pr show ?thesis using A by (elim disjE conjE exE; simp)
    next
      case None
      with A have m2: "milestones t2 =
          (if skipSync o0 then []
           else [Sync_Return Settings False None, Sync_Return Extensions False None])"
        by (elim disjE conjE exE; simp)
      obtain r3 t3 where st: "sshCode_startTunnel w h dir o3 t2 = (r3, t3)" by force
      note B = ms_startTunnel [OF st, unfolded m2]
      show ?thesis
      proof (cases r3)
        case (Some e)
        with s p Inr ho si None st have "out = Returned (Some e)" "tr = t3"
          by (simp_all add: sshCode_def t0_def)
        with Some pr show ?thesis using B by (elim disjE conjE exE; simp)
      next
        case n3: None
        show ?thesis
        proof (cases "waitReady w (''http://'' @ bindAddr o3) 0 t3")
          case wn: None
          with s p Inr ho si None st n3 show ?thesis
            by (simp add: sshCode_def t0_def)
        next
          case (Some rt)
          obtain r4 t4 where rt: "rt = (r4, t4)" by force
          note C = ms_waitReady [OF Some, unfolded rt fst_conv snd_conv]
          from B have m3: "milestones t3 =
              (if skipSync o0 then []
               else [Sync_Return Settings False None, Sync_Return Extensions False None])"
            by simp
          show ?thesis
          proof (cases r4)
            case e4: (Some e)
            with s p Inr ho si None st n3 Some rt have "out = Returned (Some e)" "tr = t4"
              by (simp_all add: sshCode_def t0_def)
            with e4 m3 pr show ?thesis using C by (elim disjE conjE exE; simp)
          next
            case n4: None
            with C m3 have m4: "milestones t4 =
                (if skipSync o0 then []
                 else [Sync_Return Settings False None, Sync_Return Extensions False None]) @
                [Body_Close]"
              by (elim disjE conjE exE; simp)
            obtain sg t5 where run: "sshCode_run w (''http://'' @ bindAddr o3) o3 t4 = (sg, t5)"
              by force
            from ms_run [OF run] m4 have m5: "milestones t5 =
                (if skipSync o0 then []
                 else [Sync_Return Settings False None, Sync_Return Extensions False None]) @
                [Body_Close, Select sg]"
              by simp
            show ?thesis
            proof (cases sg)
              case n5: None
              with s p Inr ho si None st n3 Some rt n4 run have "out = Blocked" "tr = t5"
                by (simp_all add: sshCode_def t0_def)
              with m5 n5 pr show ?thesis by simp
            next
              case s5: (Some sig)
              obtain r6 t6 where sb: "sshCode_syncBack w h o3 t5 = (r6, t6)" by force
              with s p Inr ho si None st n3 Some rt n4 run s5
              have o: "out = Returned r6" "tr = t6"
                by (simp_all add: sshCode_def t0_def)
              note D = ms_syncBack [OF sb, unfolded m5 f3 s5]
              from o pr show ?thesis using D by (elim disjE conjE exE; simp)
            qed
          qed
        qed
      qed
    qed
  qed
qed

section \<open>The order and the gating of the syncs\<close>

lemma is_sync_milestone: "is_sync e \<Longrightarrow> is_milestone e"
  by (cases e) (simp_all add: is_sync_def is_milestone_def)

lemma sync_calls_milestones: "sync_calls t = filter is_sync (milestones t)"
proof -
  have "(\<lambda>x. is_milestone x \<and> is_sync x) = is_sync"
    using is_sync_milestone by auto
  then show ?thesis by (simp add: sync_calls_def milestones_def)
qed

lemma in_milestones: "e \<in> set (milestones t) \<longleftrightarrow> e \<in> set t \<and> is_milestone e"
  by (simp add: milestones_def)

lemma is_sync_simps:
  "is_sync (Sync_Return a b r)" "\<not> is_sync Body_Close" "\<not> is_sync (Select s)"
  by (simp_all add: is_sync_def)

lemma session_total:
  assumes "\<forall>n u. 0 < fst (w_get w n u)"
  shows "\<exists>out tr. sshCode w host dir o0 = Some (out, tr)"
proof -
  have wr: "\<exists>rt. waitReady w url 0 t = Some rt" for url t
    using waitReady_runs [of w url 0 t] assms by auto
  show ?thesis
  proof (cases "sshCode_prepare w host o0 [Flog_Info ''ensuring code-server is updated...'']")
    case (Pair r1 t1)
    show ?thesis
    proof (cases r1)
      case (Inl e)
      with Pair show ?thesis by (simp add: sshCode_def)
    next
      case (Inr ho)
      obtain h o3 where ho: "ho = (h, o3)" by force
      obtain rt where rt: "waitReady w (''http://'' @ bindAddr o3) 0
          (snd (sshCode_startTunnel w h dir o3 (snd (sshCode_syncIn w h o3 t1)))) = Some rt"
        using wr by blast
      show ?thesis
        using Pair Inr ho rt
        by (cases "sshCode_syncIn w h o3 t1";
            cases "sshCode_startTunnel w h dir o3 (snd (sshCode_syncIn w h o3 t1))";
            cases rt)
           (auto simp: sshCode_def split: option.splits prod.splits)
    qed
  qed
qed

lemmas session_eval =
  sshCode_def sshCode_prepare_def sshCode_syncIn_def sshCode_startTunnel_def
  sshCode_run_def sshCode_syncBack_def parseHost_def parseGCPSSHCmd_def parseBindAddr_def
  net_SplitHostPort_def net_JoinHostPort_def lastIndexByte_def addrErr_def
  syncUserSettings_def syncExtensions_def returning_def ensureDir_def rsync_def rsync_args_def
  openBrowser_def commandExists_def pathExists_def startBrowser_def chromeOptions_def
  waitReady.simps client_Get_def probeDeadline_def clientTimeout_def tunnelCmdStr_def
  strings_HasPrefix_def strings_TrimPrefix_def strings_TrimSpace_def asciiSpace_def
  dottedQuad_def octet_def Let_def remoteSettingsDir_def remoteExtensionsDir_def opts_def

lemma session_calm:
  "\<exists>tr. sshCode calm ''gcp:dev'' ''~/proj'' (opts False True) = Some (Returned None, tr) \<and>
     milestones tr =
       [Sync_Return Settings False None, Sync_Return Extensions False None, Body_Close,
        Select (Some UserInterrupted), Sync_Return Extensions True None,
        Sync_Return Settings True None]"
  by (simp add: session_eval calm_def ms)

lemma session_flaky:
  "\<exists>tr e. sshCode flaky ''gcp:dev'' ''~/proj'' (opts False True) =
       Some (Returned (Some (Errorf ''failed to sync settings: %w'' [] (Some e))), tr) \<and>
     milestones tr = [Sync_Return Settings False (Some e)]"
  by (simp add: session_eval flaky_def calm_def ms)

text \<open>
  Claim C1. Take a session with sync enabled that returns or blocks. Its sync calls, in
  the order of their return, are these and no others. None, when the preparation failed.
  Otherwise the settings in push direction first: if that call fails the session returns
  the error \<^verbatim>\<open>failed to sync settings\<close> and no other sync is called. Then the extensions
  in push direction: if that call fails the session returns \<^verbatim>\<open>failed to sync extensions\<close>
  and no other sync is called. After both succeeded, when the session reaches the syncs
  back, the extensions in pull direction first, then the settings in pull direction; the
  first of them that fails makes the session return the error
  \<^verbatim>\<open>failed to sync extensions back\<close> or
  \<^verbatim>\<open>failed to sync user settings settings back\<close>, and when both succeed the session
  returns \<^verbatim>\<open>nil\<close>. A session whose \<^verbatim>\<open>select\<close> fired and that was asked to sync back
  does reach the syncs back. A session returns or blocks whenever every attempt of the
  probe takes some time.
\<close>

theorem sync_order:
  "(sshCode w host dir o0 = Some (out, tr) \<and> \<not> skipSync o0 \<longrightarrow>
     ((sync_calls tr = [] \<and>
        (\<exists>e. out = Returned (Some e) \<and>
           fst (sshCode_prepare w host o0 [Flog_Info ''ensuring code-server is updated...'']) = Inl e)) \<or>
      (\<exists>e. sync_calls tr = [Sync_Return Settings False (Some e)] \<and>
           out = Returned (Some (Errorf ''failed to sync settings: %w'' [] (Some e)))) \<or>
      (\<exists>e. sync_calls tr = [Sync_Return Settings False None, Sync_Return Extensions False (Some e)] \<and>
           out = Returned (Some (Errorf ''failed to sync extensions: %w'' [] (Some e)))) \<or>
      (\<exists>back. sync_calls tr =
             [Sync_Return Settings False None, Sync_Return Extensions False None] @ back \<and>
         ((back = [] \<and>
            (out = Blocked \<or> out = Returned (Some timeoutError) \<or>
             (\<exists>e. out = Returned (Some (Errorf ''failed to start code-server: %w'' []
                                           (Some (External e))))) \<or>
             (out = Returned None \<and> \<not> syncBack o0))) \<or>
          (\<exists>e. back = [Sync_Return Extensions True (Some e)] \<and>
             out = Returned (Some (Errorf ''failed to sync extensions back: %w'' [] (Some e)))) \<or>
          (\<exists>e. back = [Sync_Return Extensions True None, Sync_Return Settings True (Some e)] \<and>
             out = Returned (Some (Errorf ''failed to sync user settings settings back: %w'' []
                                     (Some e)))) \<or>
          (back = [Sync_Return Extensions True None, Sync_Return Settings True None] \<and>
             out = Returned None)))) \<and>
     ((\<exists>sg. Select (Some sg) \<in> set tr) \<and> syncBack o0 \<longrightarrow>
        (\<exists>r rest. sync_calls tr =
           [Sync_Return Settings False None, Sync_Return Extensions False None,
            Sync_Return Extensions True r] @ rest))) \<and>
   ((\<forall>n u. 0 < fst (w_get w n u)) \<longrightarrow> (\<exists>out tr. sshCode w host dir o0 = Some (out, tr)))"
proof (intro conjI impI)
  assume a: "sshCode w host dir o0 = Some (out, tr) \<and> \<not> skipSync o0"
  then have s: "sshCode w host dir o0 = Some (out, tr)" and k: "\<not> skipSync o0" by simp_all
  from k show "(sync_calls tr = [] \<and>
        (\<exists>e. out = Returned (Some e) \<and>
           fst (sshCode_prepare w host o0 [Flog_Info ''ensuring code-server is updated...'']) = Inl e)) \<or>
      (\<exists>e. sync_calls tr = [Sync_Return Settings False (Some e)] \<and>
           out = Returned (Some (Errorf ''failed to sync settings: %w'' [] (Some e)))) \<or>
      (\<exists>e. sync_calls tr = [Sync_Return Settings False None, Sync_Return Extensions False (Some e)] \<and>
           out = Returned (Some (Errorf ''failed to sync extensions: %w'' [] (Some e)))) \<or>
      (\<exists>back. sync_calls tr =
             [Sync_Return Settings False None, Sync_Return Extensions False None] @ back \<and>
         ((back = [] \<and>
            (out = Blocked \<or> out = Returned (Some timeoutError) \<or>
             (\<exists>e. out = Returned (Some (Errorf ''failed to start code-server: %w'' []
                                           (Some (External e))))) \<or>
             (out = Returned None \<and> \<not> syncBack o0))) \<or>
          (\<exists>e. back = [Sync_Return Extensions True (Some e)] \<and>
             out = Returned (Some (Errorf ''failed to sync extensions back: %w'' [] (Some e)))) \<or>
          (\<exists>e. back = [Sync_Return Extensions True None, Sync_Return Settings True (Some e)] \<and>
             out = Returned (Some (Errorf ''failed to sync user settings settings back: %w'' []
                                     (Some e)))) \<or>
          (back = [Sync_Return Extensions True None, Sync_Return Settings True None] \<and>
             out = Returned None)))"
    using session_shape [OF s]
    by (elim disjE conjE exE; simp add: sync_calls_milestones is_sync_simps timeoutError_def)
next
  assume a: "sshCode w host dir o0 = Some (out, tr) \<and> \<not> skipSync o0"
    and b: "(\<exists>sg. Select (Some sg) \<in> set tr) \<and> syncBack o0"
  from a have s: "sshCode w host dir o0 = Some (out, tr)" and k: "\<not> skipSync o0" by simp_all
  from b obtain sg where "Select (Some sg) \<in> set (milestones tr)" and sb: "syncBack o0"
    by (auto simp: in_milestones is_milestone_simps)
  with k show "\<exists>r rest. sync_calls tr =
           [Sync_Return Settings False None, Sync_Return Extensions False None,
            Sync_Return Extensions True r] @ rest"
    using session_shape [OF s]
    by (elim disjE conjE exE; simp add: sync_calls_milestones is_sync_simps)
next
  assume "\<forall>n u. 0 < fst (w_get w n u)"
  then show "\<exists>out tr. sshCode w host dir o0 = Some (out, tr)"
    by (rule session_total)
qed

theorem sync_order_witness:
  "(\<exists>tr. sshCode calm ''gcp:dev'' ''~/proj'' (opts False True) = Some (Returned None, tr) \<and>
      \<not> skipSync (opts False True) \<and>
      sync_calls tr =
        [Sync_Return Settings False None, Sync_Return Extensions False None,
         Sync_Return Extensions True None, Sync_Return Settings True None]) \<and>
   (\<exists>tr e. sshCode flaky ''gcp:dev'' ''~/proj'' (opts False True) =
        Some (Returned (Some (Errorf ''failed to sync settings: %w'' [] (Some e))), tr) \<and>
      sync_calls tr = [Sync_Return Settings False (Some e)]) \<and>
   (\<forall>n u. 0 < fst (w_get calm n u))"
proof -
  have k: "\<not> skipSync (opts False True)" by (simp add: opts_def)
  from session_calm obtain tr where
    tr: "sshCode calm ''gcp:dev'' ''~/proj'' (opts False True) = Some (Returned None, tr)"
    and m: "milestones tr =
       [Sync_Return Settings False None, Sync_Return Extensions False None, Body_Close,
        Select (Some UserInterrupted), Sync_Return Extensions True None,
        Sync_Return Settings True None]"
    by blast
  from sync_order [of calm "''gcp:dev''" "''~/proj''" "opts False True" "Returned None" tr] tr k
  have "sync_calls tr = filter is_sync (milestones tr)"
    by (simp add: sync_calls_milestones)
  with m have c: "sync_calls tr =
        [Sync_Return Settings False None, Sync_Return Extensions False None,
         Sync_Return Extensions True None, Sync_Return Settings True None]"
    by (simp add: is_sync_simps)
  from session_flaky obtain tr2 e where
    tr2: "sshCode flaky ''gcp:dev'' ''~/proj'' (opts False True) =
       Some (Returned (Some (Errorf ''failed to sync settings: %w'' [] (Some e))), tr2)"
    and m2: "milestones tr2 = [Sync_Return Settings False (Some e)]"
    by blast
  have c2: "sync_calls tr2 = [Sync_Return Settings False (Some e)]"
    by (simp add: sync_calls_milestones m2 is_sync_simps)
  have p: "\<forall>n u. 0 < fst (w_get calm n u)" by (simp add: calm_def)
  from tr k c tr2 c2 p show ?thesis by blast
qed

lemma session_calm_skip:
  "\<exists>tr. sshCode calm ''gcp:dev'' ''~/proj'' (opts True True) = Some (Returned None, tr) \<and>
     milestones tr = [Body_Close, Select (Some UserInterrupted)]"
  by (simp add: session_eval calm_def ms)

text \<open>
  Claim C2. Take a session that returns or blocks. If \<open>skipSync\<close> is set, no sync call
  is made at all, in either direction, whatever \<open>syncBack\<close> says. A sync call in pull
  direction is made if and only if the \<^verbatim>\<open>select\<close> fired (the running state ended),
  \<open>syncBack\<close> is set and \<open>skipSync\<close> is not.
\<close>

theorem sync_gating:
  "sshCode w host dir o0 = Some (out, tr) \<longrightarrow>
     (skipSync o0 \<longrightarrow> sync_calls tr = [] \<and> (\<forall>a b r. Sync_Return a b r \<notin> set tr)) \<and>
     ((\<exists>a r. Sync_Return a True r \<in> set tr) \<longleftrightarrow>
        (\<exists>sg. Select (Some sg) \<in> set tr) \<and> syncBack o0 \<and> \<not> skipSync o0)"
proof (intro impI conjI)
  assume s: "sshCode w host dir o0 = Some (out, tr)"
  assume k: "skipSync o0"
  from k show c: "sync_calls tr = []"
    using session_shape [OF s]
    by (elim disjE conjE exE; simp add: sync_calls_milestones is_sync_simps)
  have "\<forall>e \<in> set tr. \<not> is_sync e"
    using c by (simp add: sync_calls_def filter_empty_conv)
  then show "\<forall>a b r. Sync_Return a b r \<notin> set tr"
    using is_sync_simps(1) by blast
next
  assume s: "sshCode w host dir o0 = Some (out, tr)"
  have pull: "(\<exists>a r. Sync_Return a True r \<in> set tr) \<longleftrightarrow>
      (\<exists>a r. Sync_Return a True r \<in> set (milestones tr))"
    by (simp add: in_milestones is_milestone_simps)
  have sel: "(\<exists>sg. Select (Some sg) \<in> set tr) \<longleftrightarrow> (\<exists>sg. Select (Some sg) \<in> set (milestones tr))"
    by (simp add: in_milestones is_milestone_simps)
  show "(\<exists>a r. Sync_Return a True r \<in> set tr) \<longleftrightarrow>
        (\<exists>sg. Select (Some sg) \<in> set tr) \<and> syncBack o0 \<and> \<not> skipSync o0"
    unfolding pull sel
    using session_shape [OF s]
    by (elim disjE conjE exE; cases "skipSync o0"; simp; blast?)
qed

theorem sync_gating_witness:
  "(\<exists>tr. sshCode calm ''gcp:dev'' ''~/proj'' (opts True True) = Some (Returned None, tr) \<and>
      skipSync (opts True True) \<and> syncBack (opts True True) \<and>
      Select (Some UserInterrupted) \<in> set tr \<and>
      sync_calls tr = []) \<and>
   (\<exists>tr. sshCode calm ''gcp:dev'' ''~/proj'' (opts False True) = Some (Returned None, tr) \<and>
      Select (Some UserInterrupted) \<in> set tr \<and>
      Sync_Return Extensions True None \<in> set tr)"
proof -
  from session_calm_skip obtain tr where
    tr: "sshCode calm ''gcp:dev'' ''~/proj'' (opts True True) = Some (Returned None, tr)"
    and m: "milestones tr = [Body_Close, Select (Some UserInterrupted)]"
    by blast
  have k: "skipSync (opts True True)" "syncBack (opts True True)" by (simp_all add: opts_def)
  from sync_gating [of calm "''gcp:dev''" "''~/proj''" "opts True True" "Returned None" tr] tr k
  have c: "sync_calls tr = []" by blast
  have "Select (Some UserInterrupted) \<in> set (milestones tr)" by (simp add: m)
  then have d: "Select (Some UserInterrupted) \<in> set tr" by (simp add: in_milestones)
  from session_calm obtain tr2 where
    tr2: "sshCode calm ''gcp:dev'' ''~/proj'' (opts False True) = Some (Returned None, tr2)"
    and m2: "milestones tr2 =
       [Sync_Return Settings False None, Sync_Return Extensions False None, Body_Close,
        Select (Some UserInterrupted), Sync_Return Extensions True None,
        Sync_Return Settings True None]"
    by blast
  have "Select (Some UserInterrupted) \<in> set (milestones tr2)"
    "Sync_Return Extensions True None \<in> set (milestones tr2)" by (simp_all add: m2)
  then have e: "Select (Some UserInterrupted) \<in> set tr2" "Sync_Return Extensions True None \<in> set tr2"
    by (simp_all add: in_milestones)
  from tr k c d tr2 e show ?thesis by blast
qed

section \<open>Opening the browser never fails the session\<close>

lemma lookup_event_simps:
  "lookup_event (Look_Path n f)" "lookup_event (Os_Stat p st)"
  "\<not> lookup_event (Exec_Start a b c)" "\<not> lookup_event (Browser_OpenURL u d)"
  by (simp_all add: lookup_event_def)

lemma startBrowser_launch:
  "\<exists>l. startBrowser w n url t = t @ l \<and> launch_events url l \<and> dropWhile lookup_event l = l"
  by (cases "w_start w (length t) n (chromeOptions url)")
     (simp_all add: startBrowser_def launch_events_def lookup_event_simps)

lemma openBrowser_launch:
  "take (length t) (openBrowser w url t) = t \<and>
   launch_events url (dropWhile lookup_event (drop (length t) (openBrowser w url t)))"
proof -
  have step: "take (length t) (startBrowser w n url (t @ looks)) = t \<and>
      launch_events url (dropWhile lookup_event (drop (length t) (startBrowser w n url (t @ looks))))"
    if "\<forall>e \<in> set looks. lookup_event e" for n looks
  proof -
    from startBrowser_launch [of w n url "t @ looks"] obtain l where
      l: "startBrowser w n url (t @ looks) = (t @ looks) @ l" "launch_events url l"
         "dropWhile lookup_event l = l"
      by blast
    with that show ?thesis by (simp add: dropWhile_append2)
  qed
  define e1 where "e1 = Look_Path ''google-chrome'' (w_lookPath w (length t) ''google-chrome'')"
  define e2 where "e2 = Look_Path ''google-chrome-stable''
      (w_lookPath w (Suc (length t)) ''google-chrome-stable'')"
  define e3 where "e3 = Look_Path ''chromium'' (w_lookPath w (Suc (Suc (length t))) ''chromium'')"
  define e4 where "e4 = Look_Path ''chromium-browser''
      (w_lookPath w (Suc (Suc (Suc (length t)))) ''chromium-browser'')"
  define e5 where "e5 = Os_Stat macPath (w_stat w (Suc (Suc (Suc (Suc (length t))))) macPath)"
  define e6 where "e6 = Os_Stat wslPath (w_stat w (Suc (Suc (Suc (Suc (Suc (length t)))))) wslPath)"
  have lk: "lookup_event e1" "lookup_event e2" "lookup_event e3" "lookup_event e4"
    "lookup_event e5" "lookup_event e6"
    by (simp_all add: e1_def e2_def e3_def e4_def e5_def e6_def lookup_event_simps)
  note st = step [of "[e1]"] step [of "[e1, e2]"] step [of "[e1, e2, e3]"]
    step [of "[e1, e2, e3, e4]"] step [of "[e1, e2, e3, e4, e5]"]
    step [of "[e1, e2, e3, e4, e5, e6]"]
  show ?thesis
    using st lk
    by (simp add: openBrowser_def commandExists_def pathExists_def Let_def
        e1_def [symmetric] e2_def [symmetric] e3_def [symmetric] e4_def [symmetric]
        e5_def [symmetric] e6_def [symmetric] launch_events_def lookup_event_simps
        dropWhile_append2
        split: bool.splits option.splits)
qed

lemma session_nobrowser:
  "\<exists>tr. sshCode nobrowser ''gcp:dev'' ''~/proj'' (opts True False) = Some (Returned None, tr) \<and>
     Body_Close \<in> set tr \<and>
     Browser_OpenURL ''http://127.0.0.1:8080'' (Some ''exec: no browser found'') \<in> set tr \<and>
     Flog_Error ''failed to open browser: %v'' ''exec: no browser found'' \<in> set tr \<and>
     Select (Some UserInterrupted) \<in> set tr"
  by (simp add: session_eval nobrowser_def calm_def)

text \<open>
  Claim C10. \<^verbatim>\<open>openBrowser\<close> only adds events to the trace and returns nothing else.
  After its look-ups, what it adds is one launch: a command or the default opener that
  started, or one that failed followed by the log of that failure, and nothing more. The
  step of \<^verbatim>\<open>sshCode\<close> that opens the browser goes on to the \<^verbatim>\<open>select\<close> whatever
  \<^verbatim>\<open>openBrowser\<close> did, and its result is the answer of the \<^verbatim>\<open>select\<close>. In every session
  that returns or blocks and in which the probe found the server ready, the \<^verbatim>\<open>select\<close> is
  reached, and the session blocks there, returns \<^verbatim>\<open>nil\<close>, or returns an error of the
  syncs back: never an error of the browser.
\<close>

theorem browser_failure_harmless:
  "take (length t) (openBrowser w url t) = t \<and>
   launch_events url (dropWhile lookup_event (drop (length t) (openBrowser w url t))) \<and>
   sshCode_run w url o3 t =
     (w_select w (length (if noOpen o3 then t else openBrowser w url t)),
      (if noOpen o3 then t else openBrowser w url t) @
        [Select (w_select w (length (if noOpen o3 then t else openBrowser w url t)))]) \<and>
   (sshCode w host dir o0 = Some (out, tr) \<and> Body_Close \<in> set tr \<longrightarrow>
      (\<exists>s. Select s \<in> set tr) \<and>
      (out = Blocked \<or> out = Returned None \<or>
       (\<exists>e. out = Returned (Some (Errorf ''failed to sync extensions back: %w'' [] (Some e)))) \<or>
       (\<exists>e. out = Returned (Some (Errorf ''failed to sync user settings settings back: %w'' []
                                      (Some e))))))"
proof (intro conjI impI)
  show "take (length t) (openBrowser w url t) = t"
    using openBrowser_launch by blast
  show "launch_events url (dropWhile lookup_event (drop (length t) (openBrowser w url t)))"
    using openBrowser_launch by blast
  show "sshCode_run w url o3 t =
     (w_select w (length (if noOpen o3 then t else openBrowser w url t)),
      (if noOpen o3 then t else openBrowser w url t) @
        [Select (w_select w (length (if noOpen o3 then t else openBrowser w url t)))])"
    by (simp add: sshCode_run_def Let_def)
next
  assume a: "sshCode w host dir o0 = Some (out, tr) \<and> Body_Close \<in> set tr"
  then have s: "sshCode w host dir o0 = Some (out, tr)"
    and b: "Body_Close \<in> set (milestones tr)"
    by (simp_all add: in_milestones is_milestone_simps)
  have sel: "(\<exists>s. Select s \<in> set tr) \<longleftrightarrow> (\<exists>s. Select s \<in> set (milestones tr))"
    by (simp add: in_milestones is_milestone_simps)
  from b show "\<exists>s. Select s \<in> set tr"
    unfolding sel using session_shape [OF s]
    by (elim disjE conjE exE; cases "skipSync o0"; simp; blast?)
  from b show "out = Blocked \<or> out = Returned None \<or>
       (\<exists>e. out = Returned (Some (Errorf ''failed to sync extensions back: %w'' [] (Some e)))) \<or>
       (\<exists>e. out = Returned (Some (Errorf ''failed to sync user settings settings back: %w'' []
                                      (Some e))))"
    using session_shape [OF s]
    by (elim disjE conjE exE; cases "skipSync o0"; simp)
qed

theorem browser_failure_harmless_witness:
  "\<exists>tr. sshCode nobrowser ''gcp:dev'' ''~/proj'' (opts True False) = Some (Returned None, tr) \<and>
     Body_Close \<in> set tr \<and>
     Browser_OpenURL ''http://127.0.0.1:8080'' (Some ''exec: no browser found'') \<in> set tr \<and>
     Flog_Error ''failed to open browser: %v'' ''exec: no browser found'' \<in> set tr \<and>
     (\<exists>s. Select s \<in> set tr)"
proof -
  from session_nobrowser obtain tr where
    tr: "sshCode nobrowser ''gcp:dev'' ''~/proj'' (opts True False) = Some (Returned None, tr)"
      "Body_Close \<in> set tr"
      "Browser_OpenURL ''http://127.0.0.1:8080'' (Some ''exec: no browser found'') \<in> set tr"
      "Flog_Error ''failed to open browser: %v'' ''exec: no browser found'' \<in> set tr"
    by blast
  from browser_failure_harmless [of "[]" nobrowser "''http://127.0.0.1:8080''" "opts True False"
      "''gcp:dev''" "''~/proj''" "opts True False" "Returned None" tr] tr(1,2)
  have "\<exists>s. Select s \<in> set tr" by blast
  with tr show ?thesis by blast
qed

section \<open>Further properties\<close>

text \<open>
  A host specifier without the cloud prefix is returned as it is, once the white space
  around it is removed, with no extra flags, and no command is run.
\<close>

theorem parseHost_plain:
  "\<not> strings_HasPrefix (strings_TrimSpace host) ''gcp:'' \<longrightarrow>
   parseHost w host t = (Inr (strings_TrimSpace host, []), t)"
  by (simp add: parseHost_def)

theorem parseHost_plain_witness:
  "\<not> strings_HasPrefix (strings_TrimSpace ''myhost'') ''gcp:'' \<and>
   parseHost calm ''myhost'' [] = (Inr (''myhost'', []), [])"
proof -
  have a: "\<not> strings_HasPrefix (strings_TrimSpace ''myhost'') ''gcp:''"
    by (simp add: strings_HasPrefix_def strings_TrimSpace_def asciiSpace_def)
  have b: "strings_TrimSpace ''myhost'' = ''myhost''"
    by (simp add: strings_TrimSpace_def asciiSpace_def)
  from parseHost_plain [of "''myhost''" calm "[]"] a
  have "parseHost calm ''myhost'' [] = (Inr (strings_TrimSpace ''myhost'', []), [])"
    by blast
  with a b show ?thesis by simp
qed

lemma indexByte_None: "indexByte s c = None \<longleftrightarrow> c \<notin> set s"
  by (induction s) auto

lemma indexByte_Some:
  "indexByte s c = Some e \<Longrightarrow> e < length s \<and> s ! e = c \<and> c \<notin> set (take e s)"
proof (induction s arbitrary: e)
  case Nil
  then show ?case by simp
next
  case (Cons a s)
  show ?case
  proof (cases "a = c")
    case True
    with Cons.prems show ?thesis by simp
  next
    case False
    with Cons.prems obtain k where k: "indexByte s c = Some k" "e = Suc k" by auto
    from Cons.IH [OF k(1)] False k(2) show ?thesis by simp
  qed
qed

lemma indexByte_first: "c \<notin> set xs \<Longrightarrow> indexByte (xs @ c # ys) c = Some (length xs)"
  by (induction xs) auto

lemma lastIndexByte_last: "c \<notin> set ys \<Longrightarrow> lastIndexByte (xs @ c # ys) c = Some (length xs)"
  using indexByte_first [of c "rev ys" "rev xs"] by (simp add: lastIndexByte_def)

lemma lastIndexByte_Some:
  assumes "lastIndexByte s c = Some i"
  shows "i < length s \<and> s ! i = c \<and> c \<notin> set (drop (Suc i) s)"
proof -
  from assms obtain k where k: "indexByte (rev s) c = Some k" and i: "i = length s - 1 - k"
    by (auto simp: lastIndexByte_def split: option.splits)
  from indexByte_Some [OF k] have kl: "k < length s" and kc: "rev s ! k = c"
    and kn: "c \<notin> set (take k (rev s))"
    by simp_all
  have "rev s ! k = s ! (length s - Suc k)" using kl by (simp add: rev_nth)
  with kc i kl have 1: "s ! i = c" by simp
  have "take k (rev s) = rev (drop (length s - k) s)" by (simp add: take_rev)
  with kn have "c \<notin> set (drop (length s - k) s)" by simp
  moreover have "length s - k = Suc i" using i kl by simp
  ultimately show ?thesis using 1 i kl by simp
qed

text \<open>What \<^verbatim>\<open>net.SplitHostPort\<close> returns has no bracket in it, and no colon in the port.\<close>

lemma SplitHostPort_parts:
  assumes "net_SplitHostPort s = Inr (h, p)"
  shows "CHR ''['' \<notin> set h \<and> CHR '']'' \<notin> set h \<and>
         CHR '':'' \<notin> set p \<and> CHR ''['' \<notin> set p \<and> CHR '']'' \<notin> set p"
proof (cases "lastIndexByte s CHR '':''")
  case None
  with assms show ?thesis by (simp add: net_SplitHostPort_def addrErr_def)
next
  case (Some i)
  from lastIndexByte_Some [OF Some] have il: "i < length s"
    and pc: "CHR '':'' \<notin> set (drop (Suc i) s)"
    by simp_all
  show ?thesis
  proof (cases "s ! 0 = CHR ''[''")
    case False
    with assms Some have hp: "h = take i s" "p = drop (Suc i) s"
      and nb: "indexByte s CHR ''['' = None" "indexByte s CHR '']'' = None"
      by (auto simp: net_SplitHostPort_def addrErr_def Let_def split: if_splits)
    from nb have "CHR ''['' \<notin> set s" "CHR '']'' \<notin> set s" by (simp_all add: indexByte_None)
    with hp pc show ?thesis
      by (auto dest: in_set_takeD in_set_dropD)
  next
    case True
    with assms Some obtain e where e: "indexByte s CHR '']'' = Some e"
      by (auto simp: net_SplitHostPort_def addrErr_def Let_def split: option.splits)
    with assms Some True have ei: "Suc e = i" and hp: "h = take (e - 1) (drop 1 s)" "p = drop (Suc i) s"
      and nb: "indexByte (drop 1 s) CHR ''['' = None" "indexByte (drop (Suc e) s) CHR '']'' = None"
      by (auto simp: net_SplitHostPort_def addrErr_def Let_def split: if_splits)
    from indexByte_Some [OF e] have nh: "CHR '']'' \<notin> set (take e s)" by simp
    from nb have n1: "CHR ''['' \<notin> set (drop 1 s)" and n2: "CHR '']'' \<notin> set (drop (Suc e) s)"
      by (simp_all add: indexByte_None)
    have h1: "set h \<subseteq> set (drop 1 s)" using hp(1) by (auto dest: in_set_takeD)
    have "take (e - 1) (drop 1 s) = drop 1 (take e s)"
      by (simp add: drop_take)
    then have h2: "set h \<subseteq> set (take e s)" using hp(1) by (auto dest: in_set_dropD)
    have p1: "set p \<subseteq> set (drop 1 s)" "set p \<subseteq> set (drop (Suc e) s)"
      using hp(2) ei by (auto simp: set_drop_subset_set_drop)
    from h1 h2 p1 n1 n2 nh pc hp(2) show ?thesis by auto
  qed
qed

lemma JoinHostPort_SplitHostPort:
  assumes "CHR ''['' \<notin> set h" "CHR '']'' \<notin> set h"
    and "CHR '':'' \<notin> set p" "CHR ''['' \<notin> set p" "CHR '']'' \<notin> set p"
  shows "net_SplitHostPort (net_JoinHostPort h p) = Inr (h, p)"
proof (cases "CHR '':'' \<in> set h")
  case False
  have l: "lastIndexByte (h @ CHR '':'' # p) CHR '':'' = Some (length h)"
    using assms(3) by (rule lastIndexByte_last)
  have z: "(h @ CHR '':'' # p) ! 0 \<noteq> CHR ''[''"
    using assms(1) by (cases h) auto
  have n: "indexByte (h @ CHR '':'' # p) CHR ''['' = None" "indexByte (h @ CHR '':'' # p) CHR '']'' = None"
    "indexByte h CHR '':'' = None"
    using assms False by (simp_all add: indexByte_None)
  from False l z n show ?thesis
    by (simp add: net_JoinHostPort_def net_SplitHostPort_def indexByte_None Let_def)
next
  case True
  define s where "s = CHR ''['' # h @ CHR '']'' # CHR '':'' # p"
  have j: "net_JoinHostPort h p = s"
    using True by (simp add: net_JoinHostPort_def indexByte_None s_def)
  have l: "lastIndexByte s CHR '':'' = Some (Suc (Suc (length h)))"
    using lastIndexByte_last [of "CHR '':''" p "CHR ''['' # h @ [CHR '']'']"] assms(3)
    by (simp add: s_def)
  have e: "indexByte s CHR '']'' = Some (Suc (length h))"
    using indexByte_first [of "CHR '']''" "CHR ''['' # h" "CHR '':'' # p"] assms(2)
    by (simp add: s_def)
  have n: "indexByte (drop 1 s) CHR ''['' = None"
    "indexByte (drop (Suc (Suc (length h))) s) CHR '']'' = None"
    using assms by (simp_all add: indexByte_None s_def)
  have d: "drop (Suc (Suc (Suc (length h)))) s = p" "take (length h) (drop 1 s) = h"
    "s ! 0 = CHR ''[''" "length s = Suc (Suc (Suc (length h + length p)))"
    by (simp_all add: s_def)
  show ?thesis
    unfolding j net_SplitHostPort_def
    using l e n d by (simp add: Let_def)
qed

lemma Itoa_digits: "set (strconv_Itoa n) \<subseteq> set ''0123456789''"
proof (induction n rule: strconv_Itoa.induct)
  case (1 n)
  have d: "k < 10 \<Longrightarrow> ''0123456789'' ! k \<in> set ''0123456789''" for k :: nat
    by (rule nth_mem) simp
  show ?case
  proof (cases "n < 10")
    case True
    with d [of n] show ?thesis by (subst strconv_Itoa.simps) simp
  next
    case False
    with 1 d [of "n mod 10"] show ?thesis by (subst strconv_Itoa.simps) simp
  qed
qed

text \<open>
  The address \<^verbatim>\<open>parseBindAddr\<close> returns splits again into a host and a port, neither of
  them empty.
\<close>

theorem parseBindAddr_roundtrip:
  "parseBindAddr w raw t = (Inr b, t') \<longrightarrow>
   (\<exists>h p. h \<noteq> [] \<and> p \<noteq> [] \<and> net_SplitHostPort b = Inr (h, p))"
proof
  assume a: "parseBindAddr w raw t = (Inr b, t')"
  define raw' where "raw' = (if raw = [] then '':'' else raw)"
  show "\<exists>h p. h \<noteq> [] \<and> p \<noteq> [] \<and> net_SplitHostPort b = Inr (h, p)"
  proof (cases "net_SplitHostPort raw'")
    case (Inl e)
    with a show ?thesis by (simp add: parseBindAddr_def raw'_def)
  next
    case (Inr hp)
    obtain h p where hp: "hp = (h, p)" by force
    define h' where "h' = (if h = [] then ''127.0.0.1'' else h)"
    from SplitHostPort_parts [of raw' h p] Inr hp
    have parts: "CHR ''['' \<notin> set h" "CHR '']'' \<notin> set h"
      "CHR '':'' \<notin> set p" "CHR ''['' \<notin> set p" "CHR '']'' \<notin> set p"
      by simp_all
    then have h'b: "CHR ''['' \<notin> set h'" "CHR '']'' \<notin> set h'" and h'n: "h' \<noteq> []"
      by (simp_all add: h'_def)
    show ?thesis
    proof (cases "p = []")
      case False
      with a Inr hp have "b = net_JoinHostPort h' p"
        by (simp add: parseBindAddr_def raw'_def h'_def)
      with JoinHostPort_SplitHostPort [OF h'b parts(3,4,5)] False h'n show ?thesis by blast
    next
      case True
      with a Inr hp obtain q where q: "randomPort w t = (Inr q, t')" "b = net_JoinHostPort h' q"
        by (auto simp: parseBindAddr_def raw'_def h'_def split: sum.splits prod.splits)
      from randomPort_cases [of w t] q(1) obtain k where k: "q = strconv_Itoa (k + 1024)"
        by auto
      with Itoa_digits [of "k + 1024"] have qd: "CHR '':'' \<notin> set q" "CHR ''['' \<notin> set q" "CHR '']'' \<notin> set q"
        by auto
      from k have "q \<noteq> []" by (simp add: Itoa_nonempty)
      with JoinHostPort_SplitHostPort [OF h'b qd] q(2) h'n show ?thesis by blast
    qed
  qed
qed

theorem parseBindAddr_roundtrip_witness:
  "parseBindAddr calm [] [] = (Inr ''127.0.0.1:8024'', goodTry 7000) \<and>
   net_SplitHostPort ''127.0.0.1:8024'' = Inr (''127.0.0.1'', ''8024'')"
proof -
  have a: "parseBindAddr calm [] [] = (Inr ''127.0.0.1:8024'', goodTry 7000)"
    by (simp add: parseBindAddr_def SplitHostPort_colon randomPort_calm JoinHostPort_loopback)
  have b: "net_SplitHostPort ''127.0.0.1:8024'' = Inr (''127.0.0.1'', ''8024'')"
    by (simp add: net_SplitHostPort_def lastIndexByte_def addrErr_def)
  from parseBindAddr_roundtrip [of calm "[]" "[]" "''127.0.0.1:8024''" "goodTry 7000"] a b
  show ?thesis by blast
qed

text \<open>
  The scenario of the specification, in the world \<open>calm\<close>: with sync enabled, sync back
  requested and no port given, a session resolves the host, picks the two ports, runs
  the download script, pushes the settings and the extensions, starts the tunnel, probes
  it, opens the browser, waits, pulls the extensions and the settings, and returns
  \<^verbatim>\<open>nil\<close>. These are all its events, in order.
\<close>

theorem session_scenario:
  "sshCode calm ''gcp:dev'' ''~/proj''
     \<lparr> skipSync = False, syncBack = True, noOpen = False, bindAddr = [], remotePort = [],
       sshFlags = ''-v'' \<rparr> =
   Some (Returned None,
     [Flog_Info ''ensuring code-server is updated...'',
      Exec_CombinedOutput ''sh'' [''-c'', ''gcloud compute ssh --dry-run dev'']
        ''/usr/bin/ssh -i key.pem user@10.0.0.5'' None,
      Rand_Intn 64512 7000, Net_Listen ''tcp'' '':8024'' None, Listener_Close,
      Rand_Intn 64512 7000, Net_Listen ''tcp'' '':8024'' None, Listener_Close,
      Exec_Run ''sh'' [''-c'', ''ssh -i key.pem -v 10.0.0.5 /bin/bash'']
        (Some (downloadScript ''~/.cache/sshcode/sshcode-server'')) None,
      Flog_Info ''syncing settings'',
      Config_Dir (Inr ''/home/u/.config/Code/User''),
      Os_Stat ''/home/u/.config/Code/User'' Stat_Ok,
      Exec_Run ''rsync''
        [''--exclude=workspaceStorage'', ''--exclude=logs'', ''--exclude=CachedData'', ''-azvr'',
         ''-e'', ''ssh -i key.pem -v'', ''-u'', ''--times'', ''--delete'', ''--copy-unsafe-links'',
         ''/home/u/.config/Code/User/'', ''10.0.0.5:~/.local/share/code-server/User/'']
        None None,
      Sync_Return Settings False None,
      Flog_Info ''synced settings in %s'',
      Flog_Info ''syncing extensions'',
      Extensions_Dir (Inr ''/home/u/.vscode/extensions''),
      Os_Stat ''/home/u/.vscode/extensions'' Stat_Ok,
      Exec_Run ''rsync''
        [''-azvr'', ''-e'', ''ssh -i key.pem -v'', ''-u'', ''--times'', ''--delete'',
         ''--copy-unsafe-links'', ''/home/u/.vscode/extensions/'',
         ''10.0.0.5:~/.local/share/code-server/extensions/'']
        None None,
      Sync_Return Extensions False None,
      Flog_Info ''synced extensions in %s'',
      Flog_Info ''starting code-server...'',
      Flog_Info ''Tunneling remote port %v to %v'',
      Exec_Start ''sh''
        [''-c'',
         ''ssh -tt -q -L 127.0.0.1:8024:localhost:8024 -i key.pem -v 10.0.0.5 '' @ [CHR 0x27] @
         ''cd ~/proj; ~/.cache/sshcode/sshcode-server --host 127.0.0.1 --allow-http --no-auth --port=8024'' @
         [CHR 0x27]]
        None,
      Http_Get ''http://127.0.0.1:8024'' 20000000 (Inr 200),
      Body_Close,
      Look_Path ''google-chrome'' False,
      Look_Path ''google-chrome-stable'' False,
      Look_Path ''chromium'' False,
      Look_Path ''chromium-browser'' False,
      Os_Stat ''/Applications/Google Chrome.app/Contents/MacOS/Google Chrome'' Stat_Ok,
      Exec_Start ''/Applications/Google Chrome.app/Contents/MacOS/Google Chrome''
        [''--app=http://127.0.0.1:8024'', ''--disable-extensions'', ''--disable-plugins'',
         ''--incognito'']
        None,
      Select (Some UserInterrupted),
      Flog_Info ''synchronizing VS Code back to local'',
      Extensions_Dir (Inr ''/home/u/.vscode/extensions''),
      Os_Stat ''/home/u/.vscode/extensions'' Stat_Ok,
      Exec_Run ''rsync''
        [''-azvr'', ''-e'', ''ssh -i key.pem -v'', ''-u'', ''--times'', ''--delete'',
         ''--copy-unsafe-links'', ''10.0.0.5:~/.local/share/code-server/extensions/'',
         ''/home/u/.vscode/extensions/'']
        None None,
      Sync_Return Extensions True None,
      Config_Dir (Inr ''/home/u/.config/Code/User''),
      Os_Stat ''/home/u/.config/Code/User'' Stat_Ok,
      Exec_Run ''rsync''
        [''--exclude=workspaceStorage'', ''--exclude=logs'', ''--exclude=CachedData'', ''-azvr'',
         ''-e'', ''ssh -i key.pem -v'', ''-u'', ''--times'', ''--delete'', ''--copy-unsafe-links'',
         ''10.0.0.5:~/.local/share/code-server/User/'', ''/home/u/.config/Code/User/'']
        None None,
      Sync_Return Settings True None])"
proof -
  have f: "w_combinedOutput calm = (\<lambda>n name args. (''/usr/bin/ssh -i key.pem user@10.0.0.5'', None))"
    "w_run calm = (\<lambda>n name args stdin. None)"
    "w_start calm = (\<lambda>n name args. None)"
    "w_configDir calm = (\<lambda>n. Inr ''/home/u/.config/Code/User'')"
    "w_extensionsDir calm = (\<lambda>n. Inr ''/home/u/.vscode/extensions'')"
    "w_stat calm = (\<lambda>n path. Stat_Ok)"
    "w_get calm = (\<lambda>n url. (20000000, Inr 200))"
    "w_lookPath calm = (\<lambda>n name. False)"
    "w_select calm = (\<lambda>n. Some UserInterrupted)"
    "w_parseIP calm = dottedQuad"
    by (simp_all add: calm_def)
  have r: "randomPort calm t = (Inr ''8024'', t @ [Rand_Intn 64512 7000, Net_Listen ''tcp'' '':8024'' None, Listener_Close])" for t
    by (simp add: randomPort_calm goodTry_def strconv_Itoa.simps)
  show ?thesis
    by (simp add: sshCode_def sshCode_prepare_def sshCode_syncIn_def sshCode_startTunnel_def
      sshCode_run_def sshCode_syncBack_def parseHost_def parseGCPSSHCmd_def parseBindAddr_def
      r SplitHostPort_colon JoinHostPort_loopback
      syncUserSettings_def syncExtensions_def returning_def ensureDir_def rsync_def rsync_args_def
      openBrowser_def commandExists_def pathExists_def startBrowser_def chromeOptions_def
      waitReady.simps client_Get_def probeDeadline_def clientTimeout_def tunnelCmdStr_def
      strings_HasPrefix_def strings_TrimPrefix_def strings_TrimSpace_def asciiSpace_def
      dottedQuad_def octet_def f Let_def codeServerPath_def macPath_def
      remoteSettingsDir_def remoteExtensionsDir_def)
qed

end
